theory Spec2Isabelle
  imports Main "HOL-Library.Word" "HOL-Library.Sublist"
begin

section \<open>The hcloud docker-machine driver\<close>

text \<open>
  A shallow embedding of \<^verbatim>\<open>drivers/hcloud/hcloud.go\<close>. The driver is a Go struct whose
  methods call the Hetzner Cloud client library and mutate two fields of the driver.
  The embedding makes explicit what Go leaves implicit:
  \<^item> a Go \<^verbatim>\<open>error\<close> result is an \<open>error option\<close>, where \<open>None\<close> is \<^verbatim>\<open>nil\<close>;
  \<^item> a Go pointer is an \<open>option\<close>, where \<open>None\<close> is the nil pointer, and
    dereferencing nil is the outcome \<open>Panics\<close>;
  \<^item> a channel receive on which nothing is ever delivered is the outcome \<open>Blocks\<close>;
  \<^item> the driver struct is passed in and returned, together with the list of the calls
    made to the client library so far;
  \<^item> the client library is a parameter: a record of functions giving, for the calls made
    so far and the arguments of a call, what that call returns.
\<close>

subsection \<open>Go values\<close>

datatype error =
    HCloudError string string   \<comment> \<open>\<^verbatim>\<open>hcloud.Error{Code, Message}\<close>\<close>
  | OtherError string           \<comment> \<open>any other error value, by its message\<close>

datatype 'a outcome =
    Returns 'a
  | Panics
  | Blocks

subsection \<open>Package net: \<^verbatim>\<open>IP.String\<close> and \<^verbatim>\<open>JoinHostPort\<close>\<close>

text \<open>\<^verbatim>\<open>net.IP\<close> is a byte slice; the nil slice is the empty list.\<close>

type_synonym IP = "8 word list"

definition hexDigit :: string where
  "hexDigit = ''0123456789abcdef''"

fun uitoa :: "nat \<Rightarrow> string" where
  "uitoa val =
     (if val < 10 then [hexDigit ! val]
      else uitoa (val div 10) @ [hexDigit ! (val mod 10)])"

declare uitoa.simps [simp del]

definition hexString :: "IP \<Rightarrow> string" where
  "hexString b =
     concat (map (\<lambda>tn. [hexDigit ! (unat tn div 16), hexDigit ! (unat tn mod 16)]) b)"

definition appendHex :: "string \<Rightarrow> nat \<Rightarrow> string" where
  "appendHex dst i =
     (if i = 0 then dst @ ''0''
      else dst @ concat (map (\<lambda>j. let v = i div 16 ^ j
                                   in if 0 < v then [hexDigit ! (v mod 16)] else [])
                            [7, 6, 5, 4, 3, 2, 1, 0]))"

definition To4 :: "IP \<Rightarrow> IP" where
  "To4 ip =
     (if length ip = 4 then ip
      else if length ip = 16 \<and> (\<forall>b \<in> set (take 10 ip). b = 0)
              \<and> ip ! 10 = 255 \<and> ip ! 11 = 255
           then drop 12 ip
      else [])"

text \<open>
  The inner loop of \<^verbatim>\<open>IP.String\<close>:
  \<^verbatim>\<open>for j < IPv6len && p[j] == 0 && p[j+1] == 0 { j += 2 }\<close>.
\<close>

function zero_run_end :: "IP \<Rightarrow> nat \<Rightarrow> nat" where
  "zero_run_end p j =
     (if j < 16 \<and> p ! j = 0 \<and> p ! (j + 1) = 0 then zero_run_end p (j + 2) else j)"
  by pat_completeness auto
termination
  by (relation "measure (\<lambda>(p, j). 16 - j)") auto

declare zero_run_end.simps [simp del]

text \<open>
  The outer loop, which keeps the longest run of zero groups in \<open>(e0, e1)\<close>; after a
  run is taken the loop variable is set to its end and then incremented.
\<close>

function longest_zero_run :: "IP \<Rightarrow> nat \<Rightarrow> int \<Rightarrow> int \<Rightarrow> int \<times> int" where
  "longest_zero_run p i e0 e1 =
     (if i < 16 then
        (let j = zero_run_end p i in
         if i < j \<and> e1 - e0 < int j - int i
         then longest_zero_run p (j + 2) (int i) (int j)
         else longest_zero_run p (i + 2) e0 e1)
      else (e0, e1))"
  by pat_completeness auto
termination
  by (relation "measure (\<lambda>(p, i, e0, e1). 16 - i)") auto

declare longest_zero_run.simps [simp del]

definition group16 :: "IP \<Rightarrow> nat \<Rightarrow> nat" where
  "group16 p i = unat (p ! i) * 256 + unat (p ! (i + 1))"

text \<open>
  The printing loop. In Go the test is \<^verbatim>\<open>i == e0\<close> alone; \<open>e0 < e1\<close> holds whenever
  \<open>e0\<close> is not \<open>-1\<close>, and is written into the test here so that the recursion is
  well-founded for every argument.
\<close>

function ipv6_print :: "IP \<Rightarrow> nat \<Rightarrow> int \<Rightarrow> int \<Rightarrow> string \<Rightarrow> string" where
  "ipv6_print p i e0 e1 b =
     (if 16 \<le> i then b
      else if int i = e0 \<and> int i < e1 then
        (let b' = b @ ''::''; i' = nat e1 in
         if 16 \<le> i' then b'
         else ipv6_print p (i' + 2) e0 e1 (appendHex b' (group16 p i')))
      else ipv6_print p (i + 2) e0 e1
             (appendHex (if 0 < i then b @ '':'' else b) (group16 p i)))"
  by pat_completeness auto
termination
  by (relation "measure (\<lambda>(p, i, e0, e1, b). 16 - i)") auto

declare ipv6_print.simps [simp del]

definition IP_String :: "IP \<Rightarrow> string" where
  "IP_String ip =
     (if length ip = 0 then ''<nil>''
      else let p4 = To4 ip in
        if length p4 = 4 then
          uitoa (unat (p4 ! 0)) @ ''.'' @ uitoa (unat (p4 ! 1)) @ ''.'' @
          uitoa (unat (p4 ! 2)) @ ''.'' @ uitoa (unat (p4 ! 3))
        else if length ip \<noteq> 16 then ''?'' @ hexString ip
        else
          (let (e0, e1) = longest_zero_run ip 0 (- 1) (- 1);
               (e0, e1) = (if e1 - e0 \<le> 2 then (- 1, - 1) else (e0, e1))
           in ipv6_print ip 0 e0 e1 []))"

text \<open>\<^verbatim>\<open>net.JoinHostPort\<close>: a host with a colon is taken to be an IPv6 literal.\<close>

definition JoinHostPort :: "string \<Rightarrow> string \<Rightarrow> string" where
  "JoinHostPort host port =
     (if CHR '':'' \<in> set host then ''['' @ host @ '']:'' @ port
      else host @ '':'' @ port)"

subsection \<open>Package hcloud: the client library's types\<close>

text \<open>
  Only the fields that the driver reads or writes are kept. Integers of Go type
  \<^verbatim>\<open>int\<close> are 64-bit words; the driver copies them and does no arithmetic on them.
\<close>

record hc_ServerType =
  ServerType_ID :: "64 word"
  ServerType_Name :: string

record hc_Image =
  Image_ID :: "64 word"
  Image_Name :: string

record hc_Datacenter =
  Datacenter_ID :: "64 word"
  Datacenter_Name :: string

record hc_Location =
  Location_ID :: "64 word"
  Location_Name :: string

record hc_ServerPublicNetIPv4 =
  IP :: IP

record hc_ServerPublicNet =
  IPv4 :: hc_ServerPublicNetIPv4

text \<open>\<^verbatim>\<open>type ServerStatus string\<close>, with the constants of the library.\<close>

type_synonym ServerStatus = string

definition ServerStatusInitializing :: ServerStatus where
  "ServerStatusInitializing = ''initializing''"

definition ServerStatusOff :: ServerStatus where
  "ServerStatusOff = ''off''"

definition ServerStatusRunning :: ServerStatus where
  "ServerStatusRunning = ''running''"

definition ServerStatusStarting :: ServerStatus where
  "ServerStatusStarting = ''starting''"

definition ServerStatusStopping :: ServerStatus where
  "ServerStatusStopping = ''stopping''"

record hc_Server =
  ID :: "64 word"
  Status :: ServerStatus
  PublicNet :: hc_ServerPublicNet

record hc_Action =
  Action_ID :: "64 word"
  Command :: string

record hc_ServerCreateOpts =
  opts_Name :: string
  opts_ServerType :: "hc_ServerType option"
  opts_Image :: "hc_Image option"
  opts_Datacenter :: "hc_Datacenter option"
  opts_Location :: "hc_Location option"

record hc_ServerCreateResult =
  Server :: "hc_Server option"
  Action :: "hc_Action option"

text \<open>
  \<^verbatim>\<open>hcloud.Client\<close>, as far as \<^verbatim>\<open>NewClient(WithToken(token), WithApplication(name, version))\<close>
  determines it.
\<close>

record hc_Client =
  token :: string
  applicationName :: string
  applicationVersion :: string

definition NewClient :: "string \<Rightarrow> string \<Rightarrow> string \<Rightarrow> hc_Client" where
  "NewClient tok name ver =
     \<lparr>token = tok, applicationName = name, applicationVersion = ver\<rparr>"

definition ErrorCodeNotFound :: string where
  "ErrorCodeNotFound = ''not_found''"

text \<open>\<^verbatim>\<open>hcloud.IsError\<close>: the error is an \<^verbatim>\<open>hcloud.Error\<close> and carries the given code.\<close>

fun IsError :: "error \<Rightarrow> string \<Rightarrow> bool" where
  "IsError (HCloudError c m) code = (c = code)"
| "IsError (OtherError m) code = False"

subsection \<open>Calls to the client library\<close>

datatype call =
    Call_ServerType_Get string
  | Call_Image_Get string
  | Call_Datacenter_Get string
  | Call_Location_Get string
  | Call_Server_Create hc_ServerCreateOpts
  | Call_Server_GetByID "64 word"
  | Call_Server_Poweroff "hc_Server option"
  | Call_Server_Poweron "hc_Server option"
  | Call_Server_Shutdown "hc_Server option"
  | Call_Server_Reboot "hc_Server option"
  | Call_Server_Delete "hc_Server option"
  | Call_Action_WatchProgress hc_Action

text \<open>
  The library and the remote service behind it. Each function receives the calls made
  before this one, so that an answer may depend on everything that happened earlier.
  \<open>Action_WatchProgress\<close> gives what is received from the error channel that
  \<^verbatim>\<open>WatchProgress\<close> returns: \<open>Some r\<close> when \<open>r\<close> is delivered, \<open>None\<close> when nothing
  ever is. The calls that take a server answer for a server that is there; what a
  nil server does to them is part of the call itself, below.
\<close>

record api =
  ServerType_Get :: "call list \<Rightarrow> string \<Rightarrow> hc_ServerType option \<times> error option"
  Image_Get :: "call list \<Rightarrow> string \<Rightarrow> hc_Image option \<times> error option"
  Datacenter_Get :: "call list \<Rightarrow> string \<Rightarrow> hc_Datacenter option \<times> error option"
  Location_Get :: "call list \<Rightarrow> string \<Rightarrow> hc_Location option \<times> error option"
  Server_Create :: "call list \<Rightarrow> hc_ServerCreateOpts \<Rightarrow> hc_ServerCreateResult \<times> error option"
  Server_GetByID :: "call list \<Rightarrow> 64 word \<Rightarrow> hc_Server option \<times> error option"
  Server_Poweroff :: "call list \<Rightarrow> hc_Server \<Rightarrow> hc_Action option \<times> error option"
  Server_Poweron :: "call list \<Rightarrow> hc_Server \<Rightarrow> hc_Action option \<times> error option"
  Server_Shutdown :: "call list \<Rightarrow> hc_Server \<Rightarrow> hc_Action option \<times> error option"
  Server_Reboot :: "call list \<Rightarrow> hc_Server \<Rightarrow> hc_Action option \<times> error option"
  Server_Delete :: "call list \<Rightarrow> hc_Server \<Rightarrow> error option"
  Action_WatchProgress :: "call list \<Rightarrow> hc_Action \<Rightarrow> error option option"

subsection \<open>Package libmachine: state and base driver\<close>

text \<open>
  Modelled from the spec: the type \<^verbatim>\<open>state.State\<close> of \<^verbatim>\<open>libmachine/state\<close> is not among the
  sources; the abstract lifecycle state is the closed enumeration Running, Stopped,
  Starting, Stopping, Error.
\<close>

datatype State = Running | Stopped | Stopping | Starting | Error

text \<open>
  The fields of \<^verbatim>\<open>drivers.BaseDriver\<close> that the driver uses. \<^verbatim>\<open>NewDriver\<close> allocates the
  base driver and nothing assigns the pointer afterwards, so it is held by value.
\<close>

record BaseDriver =
  IPAddress :: string
  MachineName :: string
  StorePath :: string

text \<open>
  Modelled from the spec: \<^verbatim>\<open>BaseDriver.GetIP\<close> of \<^verbatim>\<open>libmachine/drivers\<close> is not among the
  sources; it returns the cached network identity.
\<close>

definition GetIP :: "BaseDriver \<Rightarrow> string \<times> error option" where
  "GetIP b = (IPAddress b, None)"

definition ErrHostIsNotRunning :: error where
  "ErrHostIsNotRunning = OtherError ''Host is not running''"

subsection \<open>The driver\<close>

record Driver =
  BaseDriver :: BaseDriver
  serverId :: "64 word"
  Image :: string
  Location :: string
  Datacenter :: string
  ServerType :: string
  hcloud :: "hc_Client option"

record world =
  driver :: Driver
  calls :: "call list"

definition logged :: "call \<Rightarrow> world \<Rightarrow> world" where
  "logged c w = w\<lparr>calls := calls w @ [c]\<rparr>"

definition call_ServerType_Get ::
  "api \<Rightarrow> string \<Rightarrow> world \<Rightarrow> (hc_ServerType option \<times> error option) \<times> world" where
  "call_ServerType_Get a k w = (ServerType_Get a (calls w) k, logged (Call_ServerType_Get k) w)"

definition call_Image_Get ::
  "api \<Rightarrow> string \<Rightarrow> world \<Rightarrow> (hc_Image option \<times> error option) \<times> world" where
  "call_Image_Get a k w = (Image_Get a (calls w) k, logged (Call_Image_Get k) w)"

definition call_Datacenter_Get ::
  "api \<Rightarrow> string \<Rightarrow> world \<Rightarrow> (hc_Datacenter option \<times> error option) \<times> world" where
  "call_Datacenter_Get a k w = (Datacenter_Get a (calls w) k, logged (Call_Datacenter_Get k) w)"

definition call_Location_Get ::
  "api \<Rightarrow> string \<Rightarrow> world \<Rightarrow> (hc_Location option \<times> error option) \<times> world" where
  "call_Location_Get a k w = (Location_Get a (calls w) k, logged (Call_Location_Get k) w)"

definition call_Server_Create ::
  "api \<Rightarrow> hc_ServerCreateOpts \<Rightarrow> world \<Rightarrow> (hc_ServerCreateResult \<times> error option) \<times> world" where
  "call_Server_Create a opts w = (Server_Create a (calls w) opts, logged (Call_Server_Create opts) w)"

definition call_Server_GetByID ::
  "api \<Rightarrow> 64 word \<Rightarrow> world \<Rightarrow> (hc_Server option \<times> error option) \<times> world" where
  "call_Server_GetByID a i w = (Server_GetByID a (calls w) i, logged (Call_Server_GetByID i) w)"

text \<open>
  \<^verbatim>\<open>Server.Poweroff\<close>, \<^verbatim>\<open>Server.Poweron\<close>, \<^verbatim>\<open>Server.Shutdown\<close>, \<^verbatim>\<open>Server.Reboot\<close> and
  \<^verbatim>\<open>Server.Delete\<close> take a pointer to the server and build the path of their request
  from \<^verbatim>\<open>server.ID\<close>. With a nil server the call panics there, before a request is made,
  and nothing is added to the calls.
\<close>

definition call_Server_Poweroff ::
  "api \<Rightarrow> hc_Server option \<Rightarrow> world
     \<Rightarrow> (hc_Action option \<times> error option) outcome \<times> world" where
  "call_Server_Poweroff a s w =
     (case s of
        None \<Rightarrow> (Panics, w)
      | Some sv \<Rightarrow> (Returns (Server_Poweroff a (calls w) sv), logged (Call_Server_Poweroff s) w))"

definition call_Server_Poweron ::
  "api \<Rightarrow> hc_Server option \<Rightarrow> world
     \<Rightarrow> (hc_Action option \<times> error option) outcome \<times> world" where
  "call_Server_Poweron a s w =
     (case s of
        None \<Rightarrow> (Panics, w)
      | Some sv \<Rightarrow> (Returns (Server_Poweron a (calls w) sv), logged (Call_Server_Poweron s) w))"

definition call_Server_Shutdown ::
  "api \<Rightarrow> hc_Server option \<Rightarrow> world
     \<Rightarrow> (hc_Action option \<times> error option) outcome \<times> world" where
  "call_Server_Shutdown a s w =
     (case s of
        None \<Rightarrow> (Panics, w)
      | Some sv \<Rightarrow> (Returns (Server_Shutdown a (calls w) sv), logged (Call_Server_Shutdown s) w))"

definition call_Server_Reboot ::
  "api \<Rightarrow> hc_Server option \<Rightarrow> world
     \<Rightarrow> (hc_Action option \<times> error option) outcome \<times> world" where
  "call_Server_Reboot a s w =
     (case s of
        None \<Rightarrow> (Panics, w)
      | Some sv \<Rightarrow> (Returns (Server_Reboot a (calls w) sv), logged (Call_Server_Reboot s) w))"

definition call_Server_Delete ::
  "api \<Rightarrow> hc_Server option \<Rightarrow> world \<Rightarrow> error option outcome \<times> world" where
  "call_Server_Delete a s w =
     (case s of
        None \<Rightarrow> (Panics, w)
      | Some sv \<Rightarrow> (Returns (Server_Delete a (calls w) sv), logged (Call_Server_Delete s) w))"

definition call_Action_WatchProgress ::
  "api \<Rightarrow> hc_Action \<Rightarrow> world \<Rightarrow> error option option \<times> world" where
  "call_Action_WatchProgress a act w =
     (Action_WatchProgress a (calls w) act, logged (Call_Action_WatchProgress act) w)"

definition NewDriver :: "string \<Rightarrow> string \<Rightarrow> Driver" where
  "NewDriver hostName storePath =
     \<lparr>BaseDriver = \<lparr>IPAddress = [], MachineName = hostName, StorePath = storePath\<rparr>,
      serverId = 0, Image = [], Location = [], Datacenter = [], ServerType = [],
      hcloud = None\<rparr>"

text \<open>
  \<^verbatim>\<open>waitOnAction\<close>: the log line reads \<^verbatim>\<open>action.Command\<close>, which panics on a nil action;
  then one value is received from the error channel of \<^verbatim>\<open>WatchProgress\<close>.
\<close>

definition waitOnAction :: "api \<Rightarrow> hc_Action option \<Rightarrow> world \<Rightarrow> error option outcome \<times> world" where
  "waitOnAction a action w =
     (case action of
        None \<Rightarrow> (Panics, w)
      | Some act \<Rightarrow>
          (case hcloud (driver w) of
             None \<Rightarrow> (Panics, w)
           | Some client \<Rightarrow>
               (case call_Action_WatchProgress a act w of
                  (None, w1) \<Rightarrow> (Blocks, w1)
                | (Some (Some err), w1) \<Rightarrow> (Returns (Some err), w1)
                | (Some None, w1) \<Rightarrow> (Returns None, w1))))"

text \<open>
  \<^verbatim>\<open>GetState\<close>. Reading \<^verbatim>\<open>server.Status\<close> panics on a nil server. The \<^verbatim>\<open>switch\<close> has a
  case for \<^verbatim>\<open>ServerStatusStarting\<close> with an empty body: Go leaves the switch there and
  reaches the final \<^verbatim>\<open>return state.Running, nil\<close>.
\<close>

definition GetState :: "api \<Rightarrow> world \<Rightarrow> (State \<times> error option) outcome \<times> world" where
  "GetState a w =
     (case hcloud (driver w) of
        None \<Rightarrow> (Panics, w)
      | Some client \<Rightarrow>
          (case call_Server_GetByID a (serverId (driver w)) w of
             ((server, Some err), w1) \<Rightarrow> (Returns (Error, Some err), w1)
           | ((server, None), w1) \<Rightarrow>
               (case server of
                  None \<Rightarrow> (Panics, w1)
                | Some sv \<Rightarrow>
                    (if Status sv = ServerStatusRunning then (Returns (Running, None), w1)
                     else if Status sv = ServerStatusOff then (Returns (Stopped, None), w1)
                     else if Status sv = ServerStatusStopping then (Returns (Stopping, None), w1)
                     else if Status sv = ServerStatusStarting then (Returns (Running, None), w1)
                     else if Status sv = ServerStatusInitializing
                          then (Returns (Starting, None), w1)
                     else (Returns (Running, None), w1)))))"

text \<open>
  \<^verbatim>\<open>Create\<close>, lines 91 to 118: the server type and the image are resolved, then the
  datacenter and the location when they are configured, and the creation options are
  assembled. An error of a lookup ends \<^verbatim>\<open>Create\<close> with that error (\<open>Inl\<close>).
\<close>

definition Create_opts :: "api \<Rightarrow> world \<Rightarrow> (error + hc_ServerCreateOpts) outcome \<times> world" where
  "Create_opts a w =
     (case hcloud (driver w) of
        None \<Rightarrow> (Panics, w)
      | Some client \<Rightarrow>
          (case call_ServerType_Get a (ServerType (driver w)) w of
             ((serverType, Some err), w1) \<Rightarrow> (Returns (Inl err), w1)
           | ((serverType, None), w1) \<Rightarrow>
               (case call_Image_Get a (Image (driver w1)) w1 of
                  ((img, Some err), w2) \<Rightarrow> (Returns (Inl err), w2)
                | ((img, None), w2) \<Rightarrow>
                    (let opts = \<lparr>opts_Name = MachineName (BaseDriver (driver w2)),
                                 opts_ServerType = serverType,
                                 opts_Image = img,
                                 opts_Datacenter = None,
                                 opts_Location = None\<rparr>
                     in case (if Datacenter (driver w2) \<noteq> []
                              then (case call_Datacenter_Get a (Image (driver w2)) w2 of
                                      ((datacenter, Some err), w3) \<Rightarrow> (Inl err, w3)
                                    | ((datacenter, None), w3) \<Rightarrow>
                                        (Inr (opts\<lparr>opts_Datacenter := datacenter\<rparr>), w3))
                              else (Inr opts, w2)) of
                          (Inl err, w3) \<Rightarrow> (Returns (Inl err), w3)
                        | (Inr opts, w3) \<Rightarrow>
                            (case (if Location (driver w3) \<noteq> []
                                   then (case call_Location_Get a (Image (driver w3)) w3 of
                                           ((location, Some err), w4) \<Rightarrow> (Inl err, w4)
                                         | ((location, None), w4) \<Rightarrow>
                                             (Inr (opts\<lparr>opts_Location := location\<rparr>), w4))
                                   else (Inr opts, w3)) of
                               (Inl err, w4) \<Rightarrow> (Returns (Inl err), w4)
                             | (Inr opts, w4) \<Rightarrow> (Returns (Inr opts), w4))))))"

text \<open>
  \<^verbatim>\<open>Create\<close>, lines 119 to 123 after the options: the error of \<^verbatim>\<open>Server.Create\<close> is
  assigned and never read, the result of \<^verbatim>\<open>waitOnAction\<close> is dropped, and
  \<^verbatim>\<open>resp.Server.ID\<close> panics on a nil server.
\<close>

definition Create :: "api \<Rightarrow> world \<Rightarrow> error option outcome \<times> world" where
  "Create a w =
     (case Create_opts a w of
        (Panics, w4) \<Rightarrow> (Panics, w4)
      | (Blocks, w4) \<Rightarrow> (Blocks, w4)
      | (Returns (Inl err), w4) \<Rightarrow> (Returns (Some err), w4)
      | (Returns (Inr opts), w4) \<Rightarrow>
          (case hcloud (driver w4) of
             None \<Rightarrow> (Panics, w4)
           | Some client \<Rightarrow>
               (case call_Server_Create a opts w4 of
                  ((resp, err), w5) \<Rightarrow>
                    (case waitOnAction a (Action resp) w5 of
                       (Panics, w6) \<Rightarrow> (Panics, w6)
                     | (Blocks, w6) \<Rightarrow> (Blocks, w6)
                     | (Returns waited, w6) \<Rightarrow>
                         (case Server resp of
                            None \<Rightarrow> (Panics, w6)
                          | Some server \<Rightarrow>
                              (Returns None,
                               w6\<lparr>driver := (driver w6)
                                    \<lparr>serverId := ID server,
                                     BaseDriver := (BaseDriver (driver w6))
                                       \<lparr>IPAddress := IP_String (IP (IPv4 (PublicNet server)))\<rparr>\<rparr>\<rparr>))))))"

definition Kill :: "api \<Rightarrow> world \<Rightarrow> error option outcome \<times> world" where
  "Kill a w =
     (case hcloud (driver w) of
        None \<Rightarrow> (Panics, w)
      | Some client \<Rightarrow>
          (case call_Server_GetByID a (serverId (driver w)) w of
             ((server, Some err), w1) \<Rightarrow> (Returns (Some err), w1)
           | ((server, None), w1) \<Rightarrow>
               (case call_Server_Poweroff a server w1 of
                  (Panics, w2) \<Rightarrow> (Panics, w2)
                | (Blocks, w2) \<Rightarrow> (Blocks, w2)
                | (Returns (action, Some err), w2) \<Rightarrow> (Returns (Some err), w2)
                | (Returns (action, None), w2) \<Rightarrow> waitOnAction a action w2)))"

text \<open>
  \<^verbatim>\<open>Remove\<close>. The server that the lookup returned is passed to \<^verbatim>\<open>Server.Delete\<close> without a
  test for nil.
\<close>

definition Remove :: "api \<Rightarrow> world \<Rightarrow> error option outcome \<times> world" where
  "Remove a w =
     (case hcloud (driver w) of
        None \<Rightarrow> (Panics, w)
      | Some client \<Rightarrow>
          (case call_Server_GetByID a (serverId (driver w)) w of
             ((server, Some err), w1) \<Rightarrow>
               (if IsError err ErrorCodeNotFound then (Returns None, w1)
                else (Returns (Some err), w1))
           | ((server, None), w1) \<Rightarrow>
               (case call_Server_Delete a server w1 of
                  (Panics, w2) \<Rightarrow> (Panics, w2)
                | (Blocks, w2) \<Rightarrow> (Blocks, w2)
                | (Returns err, w2) \<Rightarrow> (Returns err, w2))))"

definition Restart :: "api \<Rightarrow> world \<Rightarrow> error option outcome \<times> world" where
  "Restart a w =
     (case hcloud (driver w) of
        None \<Rightarrow> (Panics, w)
      | Some client \<Rightarrow>
          (case call_Server_GetByID a (serverId (driver w)) w of
             ((server, Some err), w1) \<Rightarrow> (Returns (Some err), w1)
           | ((server, None), w1) \<Rightarrow>
               (case call_Server_Reboot a server w1 of
                  (Panics, w2) \<Rightarrow> (Panics, w2)
                | (Blocks, w2) \<Rightarrow> (Blocks, w2)
                | (Returns (action, Some err), w2) \<Rightarrow> (Returns (Some err), w2)
                | (Returns (action, None), w2) \<Rightarrow> waitOnAction a action w2)))"

text \<open>
  \<^verbatim>\<open>SetConfigFromFlags\<close>. \<open>flags\<close> is \<^verbatim>\<open>DriverOptions.String\<close>; \<open>version\<close> is the
  constant \<^verbatim>\<open>version.Version\<close>, which is not among the sources.
\<close>

definition SetConfigFromFlags ::
  "string \<Rightarrow> (string \<Rightarrow> string) \<Rightarrow> world \<Rightarrow> error option outcome \<times> world" where
  "SetConfigFromFlags version flags w =
     (let tok = flags ''hcloud-token'' in
      if tok = [] then (Returns (Some (OtherError ''--hcloud-token option is required'')), w)
      else
        (let img = flags ''hcloud-image'' in
         if img = [] then (Returns (Some (OtherError ''--hcloud-image option is required'')), w)
         else
           (let w1 = w\<lparr>driver := (driver w)\<lparr>Image := img\<rparr>\<rparr>;
                serverType = flags ''hcloud-type'' in
            if serverType = []
            then (Returns (Some (OtherError ''--hcloud-type option is required'')), w1)
            else
              (Returns None,
               w1\<lparr>driver := (driver w1)
                    \<lparr>ServerType := serverType,
                     Datacenter := flags ''hcloud-datacenter'',
                     Location := flags ''hcloud-location'',
                     hcloud := Some (NewClient tok ''docker-machine'' version)\<rparr>\<rparr>))))"

definition Start :: "api \<Rightarrow> world \<Rightarrow> error option outcome \<times> world" where
  "Start a w =
     (case hcloud (driver w) of
        None \<Rightarrow> (Panics, w)
      | Some client \<Rightarrow>
          (case call_Server_GetByID a (serverId (driver w)) w of
             ((server, Some err), w1) \<Rightarrow> (Returns (Some err), w1)
           | ((server, None), w1) \<Rightarrow>
               (case call_Server_Poweron a server w1 of
                  (Panics, w2) \<Rightarrow> (Panics, w2)
                | (Blocks, w2) \<Rightarrow> (Blocks, w2)
                | (Returns (action, Some err), w2) \<Rightarrow> (Returns (Some err), w2)
                | (Returns (action, None), w2) \<Rightarrow> waitOnAction a action w2)))"

definition Stop :: "api \<Rightarrow> world \<Rightarrow> error option outcome \<times> world" where
  "Stop a w =
     (case hcloud (driver w) of
        None \<Rightarrow> (Panics, w)
      | Some client \<Rightarrow>
          (case call_Server_GetByID a (serverId (driver w)) w of
             ((server, Some err), w1) \<Rightarrow> (Returns (Some err), w1)
           | ((server, None), w1) \<Rightarrow>
               (case call_Server_Shutdown a server w1 of
                  (Panics, w2) \<Rightarrow> (Panics, w2)
                | (Blocks, w2) \<Rightarrow> (Blocks, w2)
                | (Returns (action, Some err), w2) \<Rightarrow> (Returns (Some err), w2)
                | (Returns (action, None), w2) \<Rightarrow> waitOnAction a action w2)))"

text \<open>
  Modelled from the spec: \<^verbatim>\<open>drivers.MustBeRunning\<close> of \<^verbatim>\<open>libmachine/drivers\<close> is not among
  the sources; it is the generic guard that requires the abstract state to be Running,
  and so fails when the state cannot be queried or is another one.
\<close>

definition MustBeRunning :: "api \<Rightarrow> world \<Rightarrow> error option outcome \<times> world" where
  "MustBeRunning a w =
     (case GetState a w of
        (Panics, w1) \<Rightarrow> (Panics, w1)
      | (Blocks, w1) \<Rightarrow> (Blocks, w1)
      | (Returns (s, Some err), w1) \<Rightarrow> (Returns (Some err), w1)
      | (Returns (s, None), w1) \<Rightarrow>
          (if s \<noteq> Running then (Returns (Some ErrHostIsNotRunning), w1)
           else (Returns None, w1)))"

definition GetSSHHostname :: "api \<Rightarrow> world \<Rightarrow> (string \<times> error option) outcome \<times> world" where
  "GetSSHHostname a w = (Returns (GetIP (BaseDriver (driver w))), w)"

definition GetURL :: "api \<Rightarrow> world \<Rightarrow> (string \<times> error option) outcome \<times> world" where
  "GetURL a w =
     (case MustBeRunning a w of
        (Panics, w1) \<Rightarrow> (Panics, w1)
      | (Blocks, w1) \<Rightarrow> (Blocks, w1)
      | (Returns (Some err), w1) \<Rightarrow> (Returns ([], Some err), w1)
      | (Returns None, w1) \<Rightarrow>
          (case GetIP (BaseDriver (driver w1)) of
             (ip, Some err) \<Rightarrow> (Returns ([], Some err), w1)
           | (ip, None) \<Rightarrow> (Returns (''tcp://'' @ JoinHostPort ip ''2376'', None), w1)))"

subsection \<open>A concrete provider\<close>

text \<open>
  The scenario of the specification: token \<open>T\<close>, image \<open>ubuntu-18.04\<close>, server type
  \<open>cx11\<close>; the provider creates the server 42 with the address 203.0.113.9 and every
  call succeeds. The variants change the answer of one call.
\<close>

definition demo_flags :: "string \<Rightarrow> string" where
  "demo_flags k =
     (if k = ''hcloud-token'' then ''T''
      else if k = ''hcloud-image'' then ''ubuntu-18.04''
      else if k = ''hcloud-type'' then ''cx11''
      else [])"

definition demo_world :: world where
  "demo_world =
     \<lparr>driver = (NewDriver ''m1'' ''/store'')
        \<lparr>Image := ''ubuntu-18.04'', ServerType := ''cx11'',
         hcloud := Some (NewClient ''T'' ''docker-machine'' ''dev'')\<rparr>,
      calls = []\<rparr>"

definition demo_server :: hc_Server where
  "demo_server = \<lparr>ID = 42, Status = ''running'', PublicNet = \<lparr>IPv4 = \<lparr>IP = [203, 0, 113, 9]\<rparr>\<rparr>\<rparr>"

definition demo_action :: hc_Action where
  "demo_action = \<lparr>Action_ID = 7, Command = ''create_server''\<rparr>"

definition demo_api :: api where
  "demo_api =
     \<lparr>ServerType_Get = (\<lambda>h k. (Some \<lparr>ServerType_ID = 1, ServerType_Name = k\<rparr>, None)),
      Image_Get = (\<lambda>h k. (Some \<lparr>Image_ID = 2, Image_Name = k\<rparr>, None)),
      Datacenter_Get = (\<lambda>h k. (Some \<lparr>Datacenter_ID = 3, Datacenter_Name = k\<rparr>, None)),
      Location_Get = (\<lambda>h k. (Some \<lparr>Location_ID = 4, Location_Name = k\<rparr>, None)),
      Server_Create = (\<lambda>h opts. (\<lparr>Server = Some demo_server, Action = Some demo_action\<rparr>, None)),
      Server_GetByID = (\<lambda>h i. (Some demo_server, None)),
      Server_Poweroff = (\<lambda>h s. (Some demo_action, None)),
      Server_Poweron = (\<lambda>h s. (Some demo_action, None)),
      Server_Shutdown = (\<lambda>h s. (Some demo_action, None)),
      Server_Reboot = (\<lambda>h s. (Some demo_action, None)),
      Server_Delete = (\<lambda>h s. None),
      Action_WatchProgress = (\<lambda>h act. Some None)\<rparr>"

definition demo_created :: world where
  "demo_created =
     demo_world\<lparr>driver := (driver demo_world)
        \<lparr>serverId := 42,
         BaseDriver := (BaseDriver (driver demo_world))\<lparr>IPAddress := ''203.0.113.9''\<rparr>\<rparr>\<rparr>"

definition action_failed :: error where
  "action_failed = HCloudError ''action_failed'' ''the action failed''"

definition uniqueness_error :: error where
  "uniqueness_error = HCloudError ''uniqueness_error'' ''server name is already used''"

definition demo_api_wait_fails :: api where
  "demo_api_wait_fails = demo_api\<lparr>Action_WatchProgress := (\<lambda>h act. Some (Some action_failed))\<rparr>"

text \<open>
  The answer of \<^verbatim>\<open>Server.GetByID\<close> for a server that does not exist: the library turns
  the not-found response of the service into a nil server and a nil error.
\<close>

definition demo_api_missing :: api where
  "demo_api_missing = demo_api\<lparr>Server_GetByID := (\<lambda>h i. (None, None))\<rparr>"

definition demo_api_off :: api where
  "demo_api_off = demo_api\<lparr>Server_GetByID := (\<lambda>h i. (Some (demo_server\<lparr>Status := ''off''\<rparr>), None))\<rparr>"

definition demo_api_starting :: api where
  "demo_api_starting =
     demo_api\<lparr>Server_GetByID := (\<lambda>h i. (Some (demo_server\<lparr>Status := ''starting''\<rparr>), None))\<rparr>"

definition demo_api_create_fails :: api where
  "demo_api_create_fails =
     demo_api\<lparr>Server_Create := (\<lambda>h opts. (\<lparr>Server = None, Action = None\<rparr>, Some uniqueness_error))\<rparr>"

definition locked :: error where
  "locked = HCloudError ''locked'' ''the server is locked''"

definition connection_refused :: error where
  "connection_refused = OtherError ''dial tcp: connection refused''"

definition demo_api_lookup_fails :: api where
  "demo_api_lookup_fails = demo_api\<lparr>Server_GetByID := (\<lambda>h i. (None, Some connection_refused))\<rparr>"

definition demo_api_submit_fails :: api where
  "demo_api_submit_fails =
     demo_api\<lparr>Server_Poweroff := (\<lambda>h s. (None, Some locked)),
              Server_Poweron := (\<lambda>h s. (None, Some locked)),
              Server_Shutdown := (\<lambda>h s. (None, Some locked)),
              Server_Reboot := (\<lambda>h s. (None, Some locked))\<rparr>"

definition new_world :: world where
  "new_world = \<lparr>driver = NewDriver ''m1'' ''/store'', calls = []\<rparr>"

definition no_flags :: "string \<Rightarrow> string" where
  "no_flags k = []"

definition demo_world_dc :: world where
  "demo_world_dc =
     demo_world\<lparr>driver := (driver demo_world)\<lparr>Location := ''fsn1'', Datacenter := ''fsn1-dc8''\<rparr>\<rparr>"

definition demo_opts :: hc_ServerCreateOpts where
  "demo_opts =
     \<lparr>opts_Name = ''m1'',
      opts_ServerType = Some \<lparr>ServerType_ID = 1, ServerType_Name = ''cx11''\<rparr>,
      opts_Image = Some \<lparr>Image_ID = 2, Image_Name = ''ubuntu-18.04''\<rparr>,
      opts_Datacenter = None,
      opts_Location = None\<rparr>"

definition demo_opts_dc :: hc_ServerCreateOpts where
  "demo_opts_dc =
     demo_opts\<lparr>opts_Datacenter := Some \<lparr>Datacenter_ID = 3, Datacenter_Name = ''ubuntu-18.04''\<rparr>,
               opts_Location := Some \<lparr>Location_ID = 4, Location_Name = ''ubuntu-18.04''\<rparr>\<rparr>"

definition demo_api_create_error_and_result :: api where
  "demo_api_create_error_and_result =
     demo_api\<lparr>Server_Create :=
       (\<lambda>h opts. (\<lparr>Server = Some demo_server, Action = Some demo_action\<rparr>,
                   Some uniqueness_error))\<rparr>"

section \<open>Properties\<close>

subsection \<open>Auxiliary facts\<close>

lemma driver_logged [simp]: "driver (logged c w) = driver w"
  by (simp add: logged_def)

lemma calls_logged [simp]: "calls (logged c w) = calls w @ [c]"
  by (simp add: logged_def)

lemmas call_defs =
  call_ServerType_Get_def call_Image_Get_def call_Datacenter_Get_def call_Location_Get_def
  call_Server_Create_def call_Server_GetByID_def call_Server_Poweroff_def
  call_Server_Poweron_def call_Server_Shutdown_def call_Server_Reboot_def
  call_Server_Delete_def call_Action_WatchProgress_def

lemmas status_defs =
  ServerStatusInitializing_def ServerStatusOff_def ServerStatusRunning_def
  ServerStatusStarting_def ServerStatusStopping_def

lemmas demo_defs =
  demo_world_def demo_server_def demo_action_def demo_api_def demo_created_def
  demo_api_wait_fails_def demo_api_missing_def demo_api_off_def demo_api_starting_def
  demo_api_create_fails_def NewDriver_def NewClient_def action_failed_def
  uniqueness_error_def demo_flags_def locked_def connection_refused_def
  demo_api_lookup_fails_def demo_api_submit_fails_def new_world_def no_flags_def demo_world_dc_def
  demo_opts_def demo_opts_dc_def demo_api_create_error_and_result_def

lemma waitOnAction_driver: "driver (snd (waitOnAction a action w)) = driver w"
  by (simp add: waitOnAction_def call_defs split: option.splits)

lemma waitOnAction_signal:
  assumes "hcloud (driver w) = Some client"
    and "call_Action_WatchProgress a act w = (Some r, w')"
  shows "waitOnAction a (Some act) w = (Returns r, w')"
  using assms by (cases r) (simp_all add: waitOnAction_def)

lemma GetState_driver: "driver (snd (GetState a w)) = driver w"
  by (simp add: GetState_def call_defs split: option.splits prod.splits)

lemma GetByID_world:
  "call_Server_GetByID a i w = (r, w1) \<Longrightarrow> w1 = logged (Call_Server_GetByID i) w"
  by (auto simp: call_defs)

lemma Start_lookup_error:
  assumes "hcloud (driver w) = Some client"
    and "call_Server_GetByID a (serverId (driver w)) w = ((server, Some e), w1)"
  shows "Start a w = (Returns (Some e), w1)"
  using assms by (simp add: Start_def)

lemma Start_submit_error:
  assumes "hcloud (driver w) = Some client"
    and "call_Server_GetByID a (serverId (driver w)) w = ((server, None), w1)"
    and "call_Server_Poweron a server w1 = (Returns (action, Some e), w2)"
  shows "Start a w = (Returns (Some e), w2)"
  using assms by (simp add: Start_def)

lemma Start_waits:
  assumes "hcloud (driver w) = Some client"
    and "call_Server_GetByID a (serverId (driver w)) w = ((server, None), w1)"
    and "call_Server_Poweron a server w1 = (Returns (Some act, None), w2)"
    and "call_Action_WatchProgress a act w2 = (Some r, w3)"
  shows "Start a w = (Returns r, w3)"
proof -
  have "driver w2 = driver w"
    using assms(2,3) by (auto simp: call_defs split: option.splits)
  then have "hcloud (driver w2) = Some client"
    using assms(1) by simp
  from waitOnAction_signal [OF this assms(4)] assms(1,2,3) show ?thesis
    by (simp add: Start_def)
qed

lemma Start_driver: "driver (snd (Start a w)) = driver w"
  by (auto simp: Start_def call_defs waitOnAction_driver
      split: option.splits prod.splits outcome.splits)

lemma Stop_lookup_error:
  assumes "hcloud (driver w) = Some client"
    and "call_Server_GetByID a (serverId (driver w)) w = ((server, Some e), w1)"
  shows "Stop a w = (Returns (Some e), w1)"
  using assms by (simp add: Stop_def)

lemma Stop_submit_error:
  assumes "hcloud (driver w) = Some client"
    and "call_Server_GetByID a (serverId (driver w)) w = ((server, None), w1)"
    and "call_Server_Shutdown a server w1 = (Returns (action, Some e), w2)"
  shows "Stop a w = (Returns (Some e), w2)"
  using assms by (simp add: Stop_def)

lemma Stop_waits:
  assumes "hcloud (driver w) = Some client"
    and "call_Server_GetByID a (serverId (driver w)) w = ((server, None), w1)"
    and "call_Server_Shutdown a server w1 = (Returns (Some act, None), w2)"
    and "call_Action_WatchProgress a act w2 = (Some r, w3)"
  shows "Stop a w = (Returns r, w3)"
proof -
  have "driver w2 = driver w"
    using assms(2,3) by (auto simp: call_defs split: option.splits)
  then have "hcloud (driver w2) = Some client"
    using assms(1) by simp
  from waitOnAction_signal [OF this assms(4)] assms(1,2,3) show ?thesis
    by (simp add: Stop_def)
qed

lemma Stop_driver: "driver (snd (Stop a w)) = driver w"
  by (auto simp: Stop_def call_defs waitOnAction_driver
      split: option.splits prod.splits outcome.splits)

lemma Restart_lookup_error:
  assumes "hcloud (driver w) = Some client"
    and "call_Server_GetByID a (serverId (driver w)) w = ((server, Some e), w1)"
  shows "Restart a w = (Returns (Some e), w1)"
  using assms by (simp add: Restart_def)

lemma Restart_submit_error:
  assumes "hcloud (driver w) = Some client"
    and "call_Server_GetByID a (serverId (driver w)) w = ((server, None), w1)"
    and "call_Server_Reboot a server w1 = (Returns (action, Some e), w2)"
  shows "Restart a w = (Returns (Some e), w2)"
  using assms by (simp add: Restart_def)

lemma Restart_waits:
  assumes "hcloud (driver w) = Some client"
    and "call_Server_GetByID a (serverId (driver w)) w = ((server, None), w1)"
    and "call_Server_Reboot a server w1 = (Returns (Some act, None), w2)"
    and "call_Action_WatchProgress a act w2 = (Some r, w3)"
  shows "Restart a w = (Returns r, w3)"
proof -
  have "driver w2 = driver w"
    using assms(2,3) by (auto simp: call_defs split: option.splits)
  then have "hcloud (driver w2) = Some client"
    using assms(1) by simp
  from waitOnAction_signal [OF this assms(4)] assms(1,2,3) show ?thesis
    by (simp add: Restart_def)
qed

lemma Restart_driver: "driver (snd (Restart a w)) = driver w"
  by (auto simp: Restart_def call_defs waitOnAction_driver
      split: option.splits prod.splits outcome.splits)

lemma Kill_lookup_error:
  assumes "hcloud (driver w) = Some client"
    and "call_Server_GetByID a (serverId (driver w)) w = ((server, Some e), w1)"
  shows "Kill a w = (Returns (Some e), w1)"
  using assms by (simp add: Kill_def)

lemma Kill_submit_error:
  assumes "hcloud (driver w) = Some client"
    and "call_Server_GetByID a (serverId (driver w)) w = ((server, None), w1)"
    and "call_Server_Poweroff a server w1 = (Returns (action, Some e), w2)"
  shows "Kill a w = (Returns (Some e), w2)"
  using assms by (simp add: Kill_def)

lemma Kill_waits:
  assumes "hcloud (driver w) = Some client"
    and "call_Server_GetByID a (serverId (driver w)) w = ((server, None), w1)"
    and "call_Server_Poweroff a server w1 = (Returns (Some act, None), w2)"
    and "call_Action_WatchProgress a act w2 = (Some r, w3)"
  shows "Kill a w = (Returns r, w3)"
proof -
  have "driver w2 = driver w"
    using assms(2,3) by (auto simp: call_defs split: option.splits)
  then have "hcloud (driver w2) = Some client"
    using assms(1) by simp
  from waitOnAction_signal [OF this assms(4)] assms(1,2,3) show ?thesis
    by (simp add: Kill_def)
qed

lemma Kill_driver: "driver (snd (Kill a w)) = driver w"
  by (auto simp: Kill_def call_defs waitOnAction_driver
      split: option.splits prod.splits outcome.splits)

lemma Remove_lookup_error:
  assumes "hcloud (driver w) = Some client"
    and "call_Server_GetByID a (serverId (driver w)) w = ((server, Some e), w1)"
  shows "Remove a w = (Returns (if IsError e ErrorCodeNotFound then None else Some e), w1)"
  using assms by (simp add: Remove_def)

lemma Remove_deletes:
  assumes "hcloud (driver w) = Some client"
    and "call_Server_GetByID a (serverId (driver w)) w = ((server, None), w1)"
    and "call_Server_Delete a server w1 = (Returns r, w2)"
  shows "Remove a w = (Returns r, w2)"
  using assms by (simp add: Remove_def)

lemma Remove_driver: "driver (snd (Remove a w)) = driver w"
  by (auto simp: Remove_def call_defs split: option.splits prod.splits outcome.splits)





lemma Remove_nil_server:
  assumes "hcloud (driver w) = Some client"
    and "call_Server_GetByID a (serverId (driver w)) w = ((None, None), w1)"
  shows "Remove a w = (Panics, w1)"
  using assms by (simp add: Remove_def call_Server_Delete_def)



lemma MustBeRunning_driver: "driver (snd (MustBeRunning a w)) = driver w"
  using GetState_driver [of a w]
  by (auto simp: MustBeRunning_def split: prod.splits outcome.splits option.splits)

lemma GetURL_driver: "driver (snd (GetURL a w)) = driver w"
  using MustBeRunning_driver [of a w]
  by (auto simp: GetURL_def split: prod.splits outcome.splits option.splits)

lemma GetSSHHostname_driver: "driver (snd (GetSSHHostname a w)) = driver w"
  by (simp add: GetSSHHostname_def)

lemma Create_opts_driver: "driver (snd (Create_opts a w)) = driver w"
  by (simp add: Create_opts_def call_defs Let_def split: option.splits prod.splits sum.splits)

lemma Create_opts_client:
  "Create_opts a w = (Returns r, w4) \<Longrightarrow> \<exists>client. hcloud (driver w) = Some client"
  by (cases "hcloud (driver w)") (simp_all add: Create_opts_def)

lemma Create_opts_not_Blocks: "fst (Create_opts a w) \<noteq> Blocks"
  by (simp add: Create_opts_def call_defs Let_def split: option.splits prod.splits sum.splits)

lemma IP_String_demo: "IP_String [203, 0, 113, 9] = ''203.0.113.9''"
  by code_simp


lemma demo_created_client: "hcloud (driver demo_created) = Some (NewClient ''T'' ''docker-machine'' ''dev'')"
  by (simp add: demo_defs)

lemma Create_opts_world:
  "Create_opts a w = (r, w4) \<Longrightarrow> driver w4 = driver w"
  using Create_opts_driver [of a w] by simp

lemma Create_after_opts:
  assumes "Create_opts a w = (Returns (Inr opts), w4)"
    and "call_Server_Create a opts w4 = ((resp, err), w5)"
    and "Server resp = Some server" and "Action resp = Some act"
    and "call_Action_WatchProgress a act w5 = (Some waited, w6)"
  shows "Create a w =
           (Returns None,
            w6\<lparr>driver := (driver w)
                 \<lparr>serverId := ID server,
                  BaseDriver := (BaseDriver (driver w))
                    \<lparr>IPAddress := IP_String (IP (IPv4 (PublicNet server)))\<rparr>\<rparr>\<rparr>)"
proof -
  obtain client where c: "hcloud (driver w) = Some client"
    using Create_opts_client [OF assms(1)] by blast
  have d4: "driver w4 = driver w"
    using assms(1) by (rule Create_opts_world)
  have d5: "driver w5 = driver w"
    using assms(2) d4 by (auto simp: call_defs)
  have d6: "driver w6 = driver w"
    using assms(5) d5 by (auto simp: call_defs)
  have "hcloud (driver w5) = Some client"
    using c d5 by simp
  from waitOnAction_signal [OF this assms(5)]
  have "waitOnAction a (Action resp) w5 = (Returns waited, w6)"
    using assms(4) by simp
  then show ?thesis
    using assms(1,2,3) c d4 d6 by (simp add: Create_def)
qed

lemma Create_no_error_after_opts:
  assumes "Create_opts a w = (Returns (Inr opts), w4)"
  shows "fst (Create a w) \<noteq> Returns (Some e)"
  using assms
  by (simp add: Create_def split: option.splits prod.splits outcome.splits)

lemma waitOnAction_calls:
  "prefix xs (calls w) \<Longrightarrow> prefix xs (calls (snd (waitOnAction a action w)))"
  by (auto simp: waitOnAction_def call_defs split: option.splits intro: prefix_prefix)







lemma Create_frame:
  "(\<exists>server :: hc_Server. fst (Create a w) = Returns None
       \<and> driver (snd (Create a w)) =
           (driver w)\<lparr>serverId := ID server,
                       BaseDriver := (BaseDriver (driver w))
                         \<lparr>IPAddress := IP_String (IP (IPv4 (PublicNet server)))\<rparr>\<rparr>)
   \<or> ((fst (Create a w) = Panics \<or> fst (Create a w) = Blocks
        \<or> (\<exists>e. fst (Create a w) = Returns (Some e)))
       \<and> driver (snd (Create a w)) = driver w)"
proof (cases "Create_opts a w")
  case (Pair r w4)
  have d4: "driver w4 = driver w"
    using Pair by (rule Create_opts_world)
  show ?thesis
  proof (cases r)
    case Panics
    with Pair d4 show ?thesis by (simp add: Create_def)
  next
    case Blocks
    with Pair d4 show ?thesis by (simp add: Create_def)
  next
    case (Returns x)
    show ?thesis
    proof (cases x)
      case (Inl e)
      with Returns Pair d4 show ?thesis by (simp add: Create_def)
    next
      case (Inr opts)
      obtain client where c: "hcloud (driver w) = Some client"
        using Create_opts_client Pair Returns by blast
      obtain resp err w5 where s: "call_Server_Create a opts w4 = ((resp, err), w5)"
        by (metis prod.exhaust)
      have d5: "driver w5 = driver w"
        using s d4 by (auto simp: call_defs)
      obtain q w6 where t: "waitOnAction a (Action resp) w5 = (q, w6)"
        by (metis prod.exhaust)
      have d6: "driver w6 = driver w"
        using waitOnAction_driver [of a "Action resp" w5] t d5 by simp
      note facts = Pair Returns Inr c d4 s t d6
      show ?thesis
      proof (cases "Server resp")
        case None
        with facts show ?thesis
          by (cases q) (simp_all add: Create_def)
      next
        case (Some sv)
        show ?thesis
        proof (cases q)
          case (Returns waited)
          with facts Some
          have "fst (Create a w) = Returns None
              \<and> driver (snd (Create a w)) =
                  (driver w)\<lparr>serverId := ID sv,
                              BaseDriver := (BaseDriver (driver w))
                                \<lparr>IPAddress := IP_String (IP (IPv4 (PublicNet sv)))\<rparr>\<rparr>"
            by (simp add: Create_def)
          then show ?thesis by (rule disjI1 [OF exI])
        next
          case Panics
          with facts Some show ?thesis by (simp add: Create_def)
        next
          case Blocks
          with facts Some show ?thesis by (simp add: Create_def)
        qed
      qed
    qed
  qed
qed

lemma Create_calls_tail:
  assumes "Create_opts a w = (Returns (Inr opts), w4)"
  shows "calls (snd (Create a w)) =
         calls (snd (waitOnAction a (Action (fst (Server_Create a (calls w4) opts)))
                       (logged (Call_Server_Create opts) w4)))"
proof -
  obtain client where "hcloud (driver w) = Some client"
    using Create_opts_client [OF assms] by blast
  then have "hcloud (driver w4) = Some client"
    using Create_opts_world [OF assms] by simp
  then show ?thesis
    using assms
    by (simp add: Create_def call_defs split: prod.splits outcome.splits option.splits)
qed

lemma Create_calls_create:
  assumes "Create_opts a w = (Returns (Inr opts), w4)"
  shows "prefix (calls w4 @ [Call_Server_Create opts]) (calls (snd (Create a w)))"
  using Create_calls_tail [OF assms]
    waitOnAction_calls [of "calls w4 @ [Call_Server_Create opts]"
      "logged (Call_Server_Create opts) w4" a]
  by simp

lemma Create_calls_extend:
  assumes "Create_opts a w = (r, w4)"
  shows "prefix (calls w4) (calls (snd (Create a w)))"
proof (cases r)
  case (Returns x)
  show ?thesis
  proof (cases x)
    case (Inl e)
    with Returns assms show ?thesis by (simp add: Create_def)
  next
    case (Inr opts)
    with Returns assms have "Create_opts a w = (Returns (Inr opts), w4)" by simp
    from Create_calls_create [OF this] show ?thesis by (rule append_prefixD)
  qed
next
  case Panics
  with assms show ?thesis by (simp add: Create_def)
next
  case Blocks
  with assms show ?thesis by (simp add: Create_def)
qed

lemma Create_opts_datacenter_call:
  assumes "hcloud (driver w) = Some client"
    and "call_ServerType_Get a (ServerType (driver w)) w = ((st, None), w1)"
    and "call_Image_Get a (Image (driver w)) w1 = ((img, None), w2)"
    and "Datacenter (driver w) \<noteq> []"
  shows "prefix (calls w2 @ [Call_Datacenter_Get (Image (driver w))])
           (calls (snd (Create_opts a w)))"
  using assms
  by (auto simp: Create_opts_def call_defs Let_def split: option.splits prod.splits)

lemma Create_opts_location_call:
  assumes "hcloud (driver w) = Some client"
    and "call_ServerType_Get a (ServerType (driver w)) w = ((st, None), w1)"
    and "call_Image_Get a (Image (driver w)) w1 = ((img, None), w2)"
    and "Location (driver w) \<noteq> []"
    and "Datacenter (driver w) = [] \<and> w3 = w2
       \<or> Datacenter (driver w) \<noteq> []
         \<and> call_Datacenter_Get a (Image (driver w)) w2 = ((dc, None), w3)"
  shows "prefix (calls w3 @ [Call_Location_Get (Image (driver w))])
           (calls (snd (Create_opts a w)))"
  using assms
  by (auto simp: Create_opts_def call_defs Let_def split: option.splits prod.splits)

lemma Create_opts_result:
  assumes "hcloud (driver w) = Some client"
    and "call_ServerType_Get a (ServerType (driver w)) w = ((st, None), w1)"
    and "call_Image_Get a (Image (driver w)) w1 = ((img, None), w2)"
    and "Create_opts a w = (Returns (Inr opts), w4)"
  shows "opts =
     \<lparr>opts_Name = MachineName (BaseDriver (driver w)),
      opts_ServerType = st,
      opts_Image = img,
      opts_Datacenter =
        (if Datacenter (driver w) = [] then None
         else fst (fst (call_Datacenter_Get a (Image (driver w)) w2))),
      opts_Location =
        (if Location (driver w) = [] then None
         else fst (fst (call_Location_Get a (Image (driver w))
                          (if Datacenter (driver w) = [] then w2
                           else snd (call_Datacenter_Get a (Image (driver w)) w2)))))\<rparr>"
  using assms
  by (auto simp: Create_opts_def call_defs Let_def split: option.splits prod.splits if_splits)

lemma Create_opts_calls_set:
  "set (calls (snd (Create_opts a w))) \<subseteq>
     set (calls w) \<union> {Call_ServerType_Get (ServerType (driver w)),
                        Call_Image_Get (Image (driver w)),
                        Call_Datacenter_Get (Image (driver w)),
                        Call_Location_Get (Image (driver w))}"
  by (auto simp: Create_opts_def call_defs Let_def split: option.splits prod.splits if_splits)

lemma waitOnAction_calls_set:
  "set (calls (snd (waitOnAction a action w))) \<subseteq> set (calls w) \<union> range Call_Action_WatchProgress"
  by (auto simp: waitOnAction_def call_defs split: option.splits)

lemma Create_lookup_key_only:
  assumes "c \<in> set (calls (snd (Create a w)))"
    and "c = Call_Datacenter_Get k \<or> c = Call_Location_Get k"
  shows "c \<in> set (calls w) \<or> k = Image (driver w)"
proof (cases "Create_opts a w")
  case (Pair r w4)
  have o: "set (calls w4) \<subseteq>
     set (calls w) \<union> {Call_ServerType_Get (ServerType (driver w)),
                        Call_Image_Get (Image (driver w)),
                        Call_Datacenter_Get (Image (driver w)),
                        Call_Location_Get (Image (driver w))}"
    using Create_opts_calls_set [of a w] Pair by simp
  have "c \<in> set (calls w4)"
  proof (cases r)
    case (Returns x)
    show ?thesis
    proof (cases x)
      case (Inl e)
      with Returns Pair assms(1) show ?thesis by (simp add: Create_def)
    next
      case (Inr opts)
      with Returns Pair have p: "Create_opts a w = (Returns (Inr opts), w4)" by simp
      have "c \<in> set (calls (logged (Call_Server_Create opts) w4)) \<union> range Call_Action_WatchProgress"
        using assms(1) Create_calls_tail [OF p]
          waitOnAction_calls_set [of a "Action (fst (Server_Create a (calls w4) opts))"
            "logged (Call_Server_Create opts) w4"]
        by auto
      with assms(2) show ?thesis by auto
    qed
  next
    case Panics
    with Pair assms(1) show ?thesis by (simp add: Create_def)
  next
    case Blocks
    with Pair assms(1) show ?thesis by (simp add: Create_def)
  qed
  with o assms(2) show ?thesis by auto
qed

subsection \<open>Creation\<close>

text \<open>
  Claim C1. Once \<^verbatim>\<open>Create\<close> has reached the server-creation call, it returns no error;
  and when that call has returned a server and an action and the wait on the action has
  delivered a value, \<^verbatim>\<open>Create\<close> returns nil with \<^verbatim>\<open>serverId\<close> bound to the identifier of the
  new server and \<^verbatim>\<open>IPAddress\<close> to the text of its public IPv4 address, whatever error the
  creation call or the wait reported.
\<close>

theorem Create_binds_identity:
  assumes "Create_opts a w = (Returns (Inr opts), w4)"
  shows "fst (Create a w) \<noteq> Returns (Some e)
       \<and> (call_Server_Create a opts w4 = ((resp, err), w5)
          \<and> Server resp = Some server \<and> Action resp = Some act
          \<and> call_Action_WatchProgress a act w5 = (Some waited, w6) \<longrightarrow>
            Create a w =
              (Returns None,
               w6\<lparr>driver := (driver w)
                    \<lparr>serverId := ID server,
                     BaseDriver := (BaseDriver (driver w))
                       \<lparr>IPAddress := IP_String (IP (IPv4 (PublicNet server)))\<rparr>\<rparr>\<rparr>))"
  using Create_no_error_after_opts [OF assms] Create_after_opts [OF assms]
  by blast

theorem Create_binds_identity_witness:
  "Create_opts demo_api_wait_fails demo_world =
     (Returns (Inr demo_opts),
      logged (Call_Image_Get ''ubuntu-18.04'') (logged (Call_ServerType_Get ''cx11'') demo_world))
   \<and> call_Server_Create demo_api_wait_fails demo_opts
        (logged (Call_Image_Get ''ubuntu-18.04'')
          (logged (Call_ServerType_Get ''cx11'') demo_world)) =
       ((\<lparr>Server = Some demo_server, Action = Some demo_action\<rparr>, None),
        logged (Call_Server_Create demo_opts)
          (logged (Call_Image_Get ''ubuntu-18.04'')
            (logged (Call_ServerType_Get ''cx11'') demo_world)))
   \<and> call_Action_WatchProgress demo_api_wait_fails demo_action
        (logged (Call_Server_Create demo_opts)
          (logged (Call_Image_Get ''ubuntu-18.04'')
            (logged (Call_ServerType_Get ''cx11'') demo_world))) =
       (Some (Some action_failed),
        logged (Call_Action_WatchProgress demo_action)
          (logged (Call_Server_Create demo_opts)
            (logged (Call_Image_Get ''ubuntu-18.04'')
              (logged (Call_ServerType_Get ''cx11'') demo_world))))
   \<and> Create demo_api_wait_fails demo_world =
       (Returns None,
        demo_created\<lparr>calls := [Call_ServerType_Get ''cx11'', Call_Image_Get ''ubuntu-18.04'',
                                Call_Server_Create demo_opts,
                                Call_Action_WatchProgress demo_action]\<rparr>)
   \<and> serverId (driver demo_created) = 42
   \<and> IPAddress (BaseDriver (driver demo_created)) = ''203.0.113.9''"
proof -
  let ?w4 = "logged (Call_Image_Get ''ubuntu-18.04'')
               (logged (Call_ServerType_Get ''cx11'') demo_world)"
  let ?w5 = "logged (Call_Server_Create demo_opts) ?w4"
  let ?w6 = "logged (Call_Action_WatchProgress demo_action) ?w5"
  have o: "Create_opts demo_api_wait_fails demo_world = (Returns (Inr demo_opts), ?w4)"
    by (simp add: Create_opts_def call_defs demo_defs)
  have c: "call_Server_Create demo_api_wait_fails demo_opts ?w4 =
       ((\<lparr>Server = Some demo_server, Action = Some demo_action\<rparr>, None), ?w5)"
    by (simp add: call_defs demo_defs)
  have t: "call_Action_WatchProgress demo_api_wait_fails demo_action ?w5 =
       (Some (Some action_failed), ?w6)"
    by (simp add: call_defs demo_defs)
  have w: "?w6\<lparr>driver := (driver demo_world)
                 \<lparr>serverId := ID demo_server,
                  BaseDriver := (BaseDriver (driver demo_world))
                    \<lparr>IPAddress := IP_String (IP (IPv4 (PublicNet demo_server)))\<rparr>\<rparr>\<rparr> =
        demo_created\<lparr>calls := [Call_ServerType_Get ''cx11'', Call_Image_Get ''ubuntu-18.04'',
                                Call_Server_Create demo_opts,
                                Call_Action_WatchProgress demo_action]\<rparr>"
    by (simp add: demo_world_def demo_created_def demo_server_def logged_def IP_String_demo)
  have r: "Create demo_api_wait_fails demo_world =
       (Returns None,
        demo_created\<lparr>calls := [Call_ServerType_Get ''cx11'', Call_Image_Get ''ubuntu-18.04'',
                                Call_Server_Create demo_opts,
                                Call_Action_WatchProgress demo_action]\<rparr>)"
    using Create_binds_identity [OF o, where resp = "\<lparr>Server = Some demo_server, Action = Some demo_action\<rparr>"
      and err = None and ?w5.0 = ?w5 and server = demo_server and act = demo_action
      and waited = "Some action_failed" and ?w6.0 = ?w6] c t w
    by simp
  have i: "serverId (driver demo_created) = 42"
    "IPAddress (BaseDriver (driver demo_created)) = ''203.0.113.9''"
    by (simp_all add: demo_created_def)
  show ?thesis
    by (intro conjI; rule o c t r i)
qed

subsection \<open>The state mapping\<close>

text \<open>
  Claim C2. When the server lookup of \<^verbatim>\<open>GetState\<close> succeeds, the provider statuses
  Running, Off, Stopping and Initializing give Running, Stopped, Stopping and Starting,
  and every other status, the status Starting among them, gives Running. No successful
  lookup gives the state Error or an error.
\<close>

theorem GetState_maps_status:
  assumes "hcloud (driver w) = Some client"
    and "call_Server_GetByID a (serverId (driver w)) w = ((Some sv, None), w1)"
  shows "(Status sv = ServerStatusRunning \<longrightarrow> GetState a w = (Returns (Running, None), w1))
       \<and> (Status sv = ServerStatusOff \<longrightarrow> GetState a w = (Returns (Stopped, None), w1))
       \<and> (Status sv = ServerStatusStopping \<longrightarrow> GetState a w = (Returns (Stopping, None), w1))
       \<and> (Status sv = ServerStatusInitializing \<longrightarrow> GetState a w = (Returns (Starting, None), w1))
       \<and> (Status sv = ServerStatusStarting \<longrightarrow> GetState a w = (Returns (Running, None), w1))
       \<and> (Status sv \<notin> {ServerStatusRunning, ServerStatusOff, ServerStatusStopping,
                        ServerStatusInitializing}
            \<longrightarrow> GetState a w = (Returns (Running, None), w1))
       \<and> fst (GetState a w) \<noteq> Returns (Error, None)
       \<and> fst (GetState a w) \<noteq> Returns (s, Some e)"
  using assms by (simp add: GetState_def status_defs)

theorem GetState_maps_status_witness:
  "hcloud (driver demo_created) = Some (NewClient ''T'' ''docker-machine'' ''dev'')
   \<and> call_Server_GetByID demo_api_starting (serverId (driver demo_created)) demo_created =
       ((Some (demo_server\<lparr>Status := ''starting''\<rparr>), None),
        logged (Call_Server_GetByID 42) demo_created)
   \<and> Status (demo_server\<lparr>Status := ''starting''\<rparr>) = ServerStatusStarting
   \<and> Status (demo_server\<lparr>Status := ''starting''\<rparr>)
        \<notin> {ServerStatusRunning, ServerStatusOff, ServerStatusStopping, ServerStatusInitializing}
   \<and> GetState demo_api_starting demo_created =
       (Returns (Running, None), logged (Call_Server_GetByID 42) demo_created)
   \<and> call_Server_GetByID demo_api_off (serverId (driver demo_created)) demo_created =
       ((Some (demo_server\<lparr>Status := ''off''\<rparr>), None),
        logged (Call_Server_GetByID 42) demo_created)
   \<and> Status (demo_server\<lparr>Status := ''off''\<rparr>) = ServerStatusOff
   \<and> GetState demo_api_off demo_created =
       (Returns (Stopped, None), logged (Call_Server_GetByID 42) demo_created)"
proof -
  have l: "call_Server_GetByID demo_api_starting (serverId (driver demo_created)) demo_created =
       ((Some (demo_server\<lparr>Status := ''starting''\<rparr>), None),
        logged (Call_Server_GetByID 42) demo_created)"
    by (simp add: demo_defs call_defs)
  have s: "Status (demo_server\<lparr>Status := ''starting''\<rparr>) = ServerStatusStarting"
    "Status (demo_server\<lparr>Status := ''starting''\<rparr>)
        \<notin> {ServerStatusRunning, ServerStatusOff, ServerStatusStopping, ServerStatusInitializing}"
    by (simp_all add: status_defs)
  have l': "call_Server_GetByID demo_api_off (serverId (driver demo_created)) demo_created =
       ((Some (demo_server\<lparr>Status := ''off''\<rparr>), None),
        logged (Call_Server_GetByID 42) demo_created)"
    by (simp add: demo_defs call_defs)
  have s': "Status (demo_server\<lparr>Status := ''off''\<rparr>) = ServerStatusOff"
    by (simp add: status_defs)
  have r: "GetState demo_api_starting demo_created =
       (Returns (Running, None), logged (Call_Server_GetByID 42) demo_created)"
    using GetState_maps_status [OF demo_created_client l] s by simp
  have r': "GetState demo_api_off demo_created =
       (Returns (Stopped, None), logged (Call_Server_GetByID 42) demo_created)"
    using GetState_maps_status [OF demo_created_client l'] s' by simp
  show ?thesis
    by (intro conjI; rule demo_created_client l s r l' s' r')
qed

subsection \<open>The error of the creation call\<close>

text \<open>
  Claim C3 says that a failure of any synchronous provider call is returned to the
  caller, and in particular that \<^verbatim>\<open>Create\<close> returns the error of the server-creation call.
  \<^verbatim>\<open>Create\<close> assigns that error and never reads it. With a provider whose creation call
  fails and returns the empty result, \<^verbatim>\<open>Create\<close> panics on the nil action; with one that
  returns an error together with a server and an action, \<^verbatim>\<open>Create\<close> returns nil. The error
  is returned in neither case.
\<close>

theorem Create_drops_creation_error:
  "call_Server_Create demo_api_create_fails demo_opts
        (logged (Call_Image_Get ''ubuntu-18.04'')
          (logged (Call_ServerType_Get ''cx11'') demo_world)) =
       ((\<lparr>Server = None, Action = None\<rparr>, Some uniqueness_error),
        logged (Call_Server_Create demo_opts)
          (logged (Call_Image_Get ''ubuntu-18.04'')
            (logged (Call_ServerType_Get ''cx11'') demo_world)))
   \<and> Create demo_api_create_fails demo_world =
       (Panics,
        logged (Call_Server_Create demo_opts)
          (logged (Call_Image_Get ''ubuntu-18.04'')
            (logged (Call_ServerType_Get ''cx11'') demo_world)))
   \<and> fst (Create demo_api_create_fails demo_world) \<noteq> Returns (Some uniqueness_error)
   \<and> fst (Create demo_api_create_error_and_result demo_world) = Returns None"
  by (simp add: Create_def Create_opts_def waitOnAction_def call_defs demo_defs)

subsection \<open>Operations before creation\<close>




subsection \<open>Removal\<close>

text \<open>
  Claim C5 says that \<^verbatim>\<open>Remove\<close> is idempotent: when the lookup by the remote identity
  reports that the server does not exist, \<^verbatim>\<open>Remove\<close> returns no error. The lookup reports
  a server that does not exist by a nil server and a nil error. \<^verbatim>\<open>Remove\<close> tests the error
  alone, so the test for not-found at line 165 is not reached, the nil server is passed
  to \<^verbatim>\<open>Server.Delete\<close>, and the call panics: \<^verbatim>\<open>Remove\<close> does not return.
\<close>

theorem Remove_missing_server_panics:
  "hcloud (driver demo_created) = Some (NewClient ''T'' ''docker-machine'' ''dev'')
   \<and> call_Server_GetByID demo_api_missing (serverId (driver demo_created)) demo_created =
       ((None, None), logged (Call_Server_GetByID 42) demo_created)
   \<and> Remove demo_api_missing demo_created =
       (Panics, logged (Call_Server_GetByID 42) demo_created)
   \<and> fst (Remove demo_api_missing demo_created) \<noteq> Returns None"
proof -
  let ?w1 = "logged (Call_Server_GetByID 42) demo_created"
  have l: "call_Server_GetByID demo_api_missing (serverId (driver demo_created)) demo_created =
       ((None, None), ?w1)"
    by (simp add: demo_defs call_defs)
  have r: "Remove demo_api_missing demo_created = (Panics, ?w1)"
    using demo_created_client l by (rule Remove_nil_server)
  have n: "fst (Remove demo_api_missing demo_created) \<noteq> Returns None"
    by (simp add: r)
  show ?thesis
    by (intro conjI; rule demo_created_client l r n)
qed

text \<open>
  The rest of what the claim says holds: a lookup error other than not-found is
  returned, and with a server from the lookup exactly one delete call is made, whose
  error is the result, with no wait on an action.
\<close>

lemma Remove_protocol:
  assumes "hcloud (driver w) = Some client"
    and "call_Server_GetByID a (serverId (driver w)) w = ((server, lookup_err), w1)"
  shows "(lookup_err = Some e \<and> \<not> IsError e ErrorCodeNotFound \<longrightarrow>
            Remove a w = (Returns (Some e), w1)
          \<and> calls w1 = calls w @ [Call_Server_GetByID (serverId (driver w))])
       \<and> (lookup_err = None \<and> call_Server_Delete a server w1 = (Returns r, w2) \<longrightarrow>
            Remove a w = (Returns r, w2)
          \<and> calls w2 = calls w @ [Call_Server_GetByID (serverId (driver w)),
                                    Call_Server_Delete server])
       \<and> (lookup_err = None \<and> server = None \<longrightarrow> Remove a w = (Panics, w1))"
proof -
  have c1: "calls w1 = calls w @ [Call_Server_GetByID (serverId (driver w))]"
    using GetByID_world [OF assms(2)] by simp
  have other: "lookup_err = Some e \<and> \<not> IsError e ErrorCodeNotFound \<longrightarrow>
            Remove a w = (Returns (Some e), w1)
          \<and> calls w1 = calls w @ [Call_Server_GetByID (serverId (driver w))]"
    using assms c1 by (simp add: Remove_lookup_error)
  have del: "lookup_err = None \<and> call_Server_Delete a server w1 = (Returns r, w2) \<longrightarrow>
            Remove a w = (Returns r, w2)
          \<and> calls w2 = calls w @ [Call_Server_GetByID (serverId (driver w)),
                                    Call_Server_Delete server]"
    using assms c1 by (auto simp: Remove_deletes) (auto simp: call_defs split: option.splits)
  have nil: "lookup_err = None \<and> server = None \<longrightarrow> Remove a w = (Panics, w1)"
    using assms by (auto simp: Remove_nil_server)
  from other del nil show ?thesis by (intro conjI)
qed

subsection \<open>The lookup keys of creation\<close>

text \<open>
  Claim C6. In \<^verbatim>\<open>Create\<close>, after the server type and the image are resolved, a configured
  datacenter is looked up with the image identifier as the key, and so is a configured
  location; no datacenter or location lookup of \<^verbatim>\<open>Create\<close> uses another key. The values
  the lookups return are the datacenter and the location of the options passed to the
  server-creation call.
\<close>

theorem Create_lookup_keys:
  assumes "hcloud (driver w) = Some client"
    and "call_ServerType_Get a (ServerType (driver w)) w = ((st, None), w1)"
    and "call_Image_Get a (Image (driver w)) w1 = ((img, None), w2)"
  shows "(Datacenter (driver w) \<noteq> [] \<longrightarrow>
            prefix (calls w2 @ [Call_Datacenter_Get (Image (driver w))])
              (calls (snd (Create a w))))
       \<and> (Location (driver w) \<noteq> [] \<and> Datacenter (driver w) = [] \<longrightarrow>
            prefix (calls w2 @ [Call_Location_Get (Image (driver w))])
              (calls (snd (Create a w))))
       \<and> (Location (driver w) \<noteq> [] \<and> Datacenter (driver w) \<noteq> []
            \<and> call_Datacenter_Get a (Image (driver w)) w2 = ((dc, None), w3) \<longrightarrow>
            prefix (calls w3 @ [Call_Location_Get (Image (driver w))])
              (calls (snd (Create a w))))
       \<and> (Call_Datacenter_Get k \<in> set (calls (snd (Create a w))) \<longrightarrow>
            Call_Datacenter_Get k \<in> set (calls w) \<or> k = Image (driver w))
       \<and> (Call_Location_Get k \<in> set (calls (snd (Create a w))) \<longrightarrow>
            Call_Location_Get k \<in> set (calls w) \<or> k = Image (driver w))
       \<and> (Create_opts a w = (Returns (Inr opts), w4) \<longrightarrow>
            opts =
              \<lparr>opts_Name = MachineName (BaseDriver (driver w)),
               opts_ServerType = st,
               opts_Image = img,
               opts_Datacenter =
                 (if Datacenter (driver w) = [] then None
                  else fst (fst (call_Datacenter_Get a (Image (driver w)) w2))),
               opts_Location =
                 (if Location (driver w) = [] then None
                  else fst (fst (call_Location_Get a (Image (driver w))
                                   (if Datacenter (driver w) = [] then w2
                                    else snd (call_Datacenter_Get a (Image (driver w)) w2)))))\<rparr>
          \<and> prefix (calls w4 @ [Call_Server_Create opts]) (calls (snd (Create a w))))"
proof -
  have ext: "prefix xs (calls (snd (Create_opts a w))) \<Longrightarrow> prefix xs (calls (snd (Create a w)))"
    for xs
    using Create_calls_extend [of a w "fst (Create_opts a w)" "snd (Create_opts a w)"]
    by (auto intro: prefix_order.trans)
  have 1: "Datacenter (driver w) \<noteq> [] \<longrightarrow>
            prefix (calls w2 @ [Call_Datacenter_Get (Image (driver w))])
              (calls (snd (Create a w)))"
    using Create_opts_datacenter_call [OF assms] by (auto intro: ext)
  have 2: "Location (driver w) \<noteq> [] \<and> Datacenter (driver w) = [] \<longrightarrow>
            prefix (calls w2 @ [Call_Location_Get (Image (driver w))])
              (calls (snd (Create a w)))"
    using Create_opts_location_call [OF assms, where ?w3.0 = w2] by (auto intro: ext)
  have 3: "Location (driver w) \<noteq> [] \<and> Datacenter (driver w) \<noteq> []
            \<and> call_Datacenter_Get a (Image (driver w)) w2 = ((dc, None), w3) \<longrightarrow>
            prefix (calls w3 @ [Call_Location_Get (Image (driver w))])
              (calls (snd (Create a w)))"
    using Create_opts_location_call [OF assms, where ?w3.0 = w3 and dc = dc]
    by (auto intro: ext)
  have 4: "Call_Datacenter_Get k \<in> set (calls (snd (Create a w))) \<longrightarrow>
            Call_Datacenter_Get k \<in> set (calls w) \<or> k = Image (driver w)"
    using Create_lookup_key_only [of "Call_Datacenter_Get k" a w k] by blast
  have 5: "Call_Location_Get k \<in> set (calls (snd (Create a w))) \<longrightarrow>
            Call_Location_Get k \<in> set (calls w) \<or> k = Image (driver w)"
    using Create_lookup_key_only [of "Call_Location_Get k" a w k] by blast
  have 6: "Create_opts a w = (Returns (Inr opts), w4) \<longrightarrow>
            opts =
              \<lparr>opts_Name = MachineName (BaseDriver (driver w)),
               opts_ServerType = st,
               opts_Image = img,
               opts_Datacenter =
                 (if Datacenter (driver w) = [] then None
                  else fst (fst (call_Datacenter_Get a (Image (driver w)) w2))),
               opts_Location =
                 (if Location (driver w) = [] then None
                  else fst (fst (call_Location_Get a (Image (driver w))
                                   (if Datacenter (driver w) = [] then w2
                                    else snd (call_Datacenter_Get a (Image (driver w)) w2)))))\<rparr>
          \<and> prefix (calls w4 @ [Call_Server_Create opts]) (calls (snd (Create a w)))"
    using Create_opts_result [OF assms] Create_calls_create by blast
  from 1 2 3 4 5 6 show ?thesis by (intro conjI)
qed

theorem Create_lookup_keys_witness:
  "hcloud (driver demo_world_dc) = Some (NewClient ''T'' ''docker-machine'' ''dev'')
   \<and> call_ServerType_Get demo_api (ServerType (driver demo_world_dc)) demo_world_dc =
       ((Some \<lparr>ServerType_ID = 1, ServerType_Name = ''cx11''\<rparr>, None),
        logged (Call_ServerType_Get ''cx11'') demo_world_dc)
   \<and> call_Image_Get demo_api (Image (driver demo_world_dc))
        (logged (Call_ServerType_Get ''cx11'') demo_world_dc) =
       ((Some \<lparr>Image_ID = 2, Image_Name = ''ubuntu-18.04''\<rparr>, None),
        logged (Call_Image_Get ''ubuntu-18.04'')
          (logged (Call_ServerType_Get ''cx11'') demo_world_dc))
   \<and> Datacenter (driver demo_world_dc) = ''fsn1-dc8''
   \<and> Location (driver demo_world_dc) = ''fsn1''
   \<and> prefix [Call_ServerType_Get ''cx11'', Call_Image_Get ''ubuntu-18.04'',
              Call_Datacenter_Get ''ubuntu-18.04'']
        (calls (snd (Create demo_api demo_world_dc)))
   \<and> prefix [Call_ServerType_Get ''cx11'', Call_Image_Get ''ubuntu-18.04'',
              Call_Datacenter_Get ''ubuntu-18.04'', Call_Location_Get ''ubuntu-18.04'']
        (calls (snd (Create demo_api demo_world_dc)))
   \<and> Call_Datacenter_Get ''fsn1-dc8'' \<notin> set (calls (snd (Create demo_api demo_world_dc)))
   \<and> Call_Location_Get ''fsn1'' \<notin> set (calls (snd (Create demo_api demo_world_dc)))
   \<and> prefix [Call_ServerType_Get ''cx11'', Call_Image_Get ''ubuntu-18.04'',
              Call_Datacenter_Get ''ubuntu-18.04'', Call_Location_Get ''ubuntu-18.04'',
              Call_Server_Create demo_opts_dc]
        (calls (snd (Create demo_api demo_world_dc)))"
proof -
  let ?w1 = "logged (Call_ServerType_Get ''cx11'') demo_world_dc"
  let ?w2 = "logged (Call_Image_Get ''ubuntu-18.04'') ?w1"
  let ?w3 = "logged (Call_Datacenter_Get ''ubuntu-18.04'') ?w2"
  let ?w4 = "logged (Call_Location_Get ''ubuntu-18.04'') ?w3"
  have c: "hcloud (driver demo_world_dc) = Some (NewClient ''T'' ''docker-machine'' ''dev'')"
    by (simp add: demo_defs)
  have l1: "call_ServerType_Get demo_api (ServerType (driver demo_world_dc)) demo_world_dc =
       ((Some \<lparr>ServerType_ID = 1, ServerType_Name = ''cx11''\<rparr>, None), ?w1)"
    by (simp add: call_defs demo_defs)
  have l2: "call_Image_Get demo_api (Image (driver demo_world_dc)) ?w1 =
       ((Some \<lparr>Image_ID = 2, Image_Name = ''ubuntu-18.04''\<rparr>, None), ?w2)"
    by (simp add: call_defs demo_defs)
  have d: "Datacenter (driver demo_world_dc) = ''fsn1-dc8''"
    "Location (driver demo_world_dc) = ''fsn1''"
    "Image (driver demo_world_dc) = ''ubuntu-18.04''"
    "calls demo_world_dc = []"
    by (simp_all add: demo_defs)
  have l3: "call_Datacenter_Get demo_api (Image (driver demo_world_dc)) ?w2 =
       ((Some \<lparr>Datacenter_ID = 3, Datacenter_Name = ''ubuntu-18.04''\<rparr>, None), ?w3)"
    by (simp add: call_defs demo_defs)
  have o: "Create_opts demo_api demo_world_dc = (Returns (Inr demo_opts_dc), ?w4)"
    by (simp add: Create_opts_def call_defs demo_defs)
  note t = Create_lookup_keys [OF c l1 l2]
  have r1: "prefix [Call_ServerType_Get ''cx11'', Call_Image_Get ''ubuntu-18.04'',
              Call_Datacenter_Get ''ubuntu-18.04'']
        (calls (snd (Create demo_api demo_world_dc)))"
    using t d by simp
  have r2: "prefix [Call_ServerType_Get ''cx11'', Call_Image_Get ''ubuntu-18.04'',
              Call_Datacenter_Get ''ubuntu-18.04'', Call_Location_Get ''ubuntu-18.04'']
        (calls (snd (Create demo_api demo_world_dc)))"
    using t [where dc = "Some \<lparr>Datacenter_ID = 3, Datacenter_Name = ''ubuntu-18.04''\<rparr>"
        and ?w3.0 = ?w3] d l3
    by simp
  have r3: "Call_Datacenter_Get ''fsn1-dc8'' \<notin> set (calls (snd (Create demo_api demo_world_dc)))"
    using t [where k = "''fsn1-dc8''"] d by auto
  have r4: "Call_Location_Get ''fsn1'' \<notin> set (calls (snd (Create demo_api demo_world_dc)))"
    using t [where k = "''fsn1''"] d by auto
  have r5: "prefix [Call_ServerType_Get ''cx11'', Call_Image_Get ''ubuntu-18.04'',
              Call_Datacenter_Get ''ubuntu-18.04'', Call_Location_Get ''ubuntu-18.04'',
              Call_Server_Create demo_opts_dc]
        (calls (snd (Create demo_api demo_world_dc)))"
    using t [where opts = demo_opts_dc and ?w4.0 = ?w4] o d by simp
  show ?thesis
    by (intro conjI; rule c l1 l2 d r1 r2 r3 r4 r5)
qed

subsection \<open>Configuration\<close>

text \<open>
  Claim C7. \<^verbatim>\<open>SetConfigFromFlags\<close> returns an error when the token, the image or the
  server type is empty, and then constructs no client and makes no call; when all three
  are given it binds the image, the server type, the datacenter and the location and
  constructs the client, returning no error.
\<close>

theorem SetConfigFromFlags_validates:
  "(flags ''hcloud-token'' = [] \<or> flags ''hcloud-image'' = [] \<or> flags ''hcloud-type'' = [] \<longrightarrow>
      (\<exists>err. fst (SetConfigFromFlags version flags w) = Returns (Some err))
    \<and> hcloud (driver (snd (SetConfigFromFlags version flags w))) = hcloud (driver w)
    \<and> calls (snd (SetConfigFromFlags version flags w)) = calls w)
 \<and> (flags ''hcloud-token'' \<noteq> [] \<and> flags ''hcloud-image'' \<noteq> [] \<and> flags ''hcloud-type'' \<noteq> [] \<longrightarrow>
      SetConfigFromFlags version flags w =
        (Returns None,
         w\<lparr>driver := (driver w)
            \<lparr>Image := flags ''hcloud-image'',
             Location := flags ''hcloud-location'',
             Datacenter := flags ''hcloud-datacenter'',
             ServerType := flags ''hcloud-type'',
             hcloud := Some (NewClient (flags ''hcloud-token'') ''docker-machine'' version)\<rparr>\<rparr>))"
  by (simp add: SetConfigFromFlags_def Let_def)

theorem SetConfigFromFlags_validates_witness:
  "demo_flags ''hcloud-token'' \<noteq> [] \<and> demo_flags ''hcloud-image'' \<noteq> []
   \<and> demo_flags ''hcloud-type'' \<noteq> []
   \<and> SetConfigFromFlags ''dev'' demo_flags new_world = (Returns None, demo_world)
   \<and> no_flags ''hcloud-token'' = []
   \<and> (\<exists>err. fst (SetConfigFromFlags ''dev'' no_flags new_world) = Returns (Some err))
   \<and> hcloud (driver (snd (SetConfigFromFlags ''dev'' no_flags new_world))) = None"
proof -
  have f: "demo_flags ''hcloud-token'' \<noteq> []" "demo_flags ''hcloud-image'' \<noteq> []"
    "demo_flags ''hcloud-type'' \<noteq> []"
    by (simp_all add: demo_flags_def)
  have n: "no_flags ''hcloud-token'' = []"
    by (simp add: no_flags_def)
  have w: "new_world\<lparr>driver := (driver new_world)
            \<lparr>Image := demo_flags ''hcloud-image'',
             Location := demo_flags ''hcloud-location'',
             Datacenter := demo_flags ''hcloud-datacenter'',
             ServerType := demo_flags ''hcloud-type'',
             hcloud := Some (NewClient (demo_flags ''hcloud-token'') ''docker-machine'' ''dev'')\<rparr>\<rparr>
           = demo_world"
    by (simp add: demo_defs)
  have h: "hcloud (driver new_world) = None"
    by (simp add: demo_defs)
  have r1: "SetConfigFromFlags ''dev'' demo_flags new_world = (Returns None, demo_world)"
    using SetConfigFromFlags_validates [of demo_flags "''dev''" new_world] f w by simp
  have r2: "(\<exists>err. fst (SetConfigFromFlags ''dev'' no_flags new_world) = Returns (Some err))
      \<and> hcloud (driver (snd (SetConfigFromFlags ''dev'' no_flags new_world))) = None"
    using SetConfigFromFlags_validates [of no_flags "''dev''" new_world] n h by simp
  show ?thesis
    using f n r1 r2 by (intro conjI) simp_all
qed

subsection \<open>Start, stop, restart and kill\<close>

text \<open>
  Claim C8. Each of \<^verbatim>\<open>Start\<close>, \<^verbatim>\<open>Stop\<close>, \<^verbatim>\<open>Restart\<close> and \<^verbatim>\<open>Kill\<close> first looks the server up
  by the remote identity and then submits its action: power-on, shutdown, reboot and
  power-off. An error of the lookup or of the submission is returned at once, with no
  call to wait on an action; otherwise what the wait on the returned action delivers
  is the result of the operation.
\<close>

theorem power_operations_protocol:
  assumes "hcloud (driver w) = Some client"
    and "call_Server_GetByID a (serverId (driver w)) w = ((server, lookup_err), w1)"
  shows "(lookup_err = Some e \<longrightarrow>
            Start a w = (Returns (Some e), w1) \<and> Stop a w = (Returns (Some e), w1)
          \<and> Restart a w = (Returns (Some e), w1) \<and> Kill a w = (Returns (Some e), w1)
          \<and> calls w1 = calls w @ [Call_Server_GetByID (serverId (driver w))])
       \<and> (lookup_err = None \<and> call_Server_Poweron a server w1 = (Returns (action, Some e), w2) \<longrightarrow>
            Start a w = (Returns (Some e), w2)
          \<and> calls w2 = calls w @ [Call_Server_GetByID (serverId (driver w)),
                                    Call_Server_Poweron server])
       \<and> (lookup_err = None \<and> call_Server_Shutdown a server w1 = (Returns (action, Some e), w2) \<longrightarrow>
            Stop a w = (Returns (Some e), w2)
          \<and> calls w2 = calls w @ [Call_Server_GetByID (serverId (driver w)),
                                    Call_Server_Shutdown server])
       \<and> (lookup_err = None \<and> call_Server_Reboot a server w1 = (Returns (action, Some e), w2) \<longrightarrow>
            Restart a w = (Returns (Some e), w2)
          \<and> calls w2 = calls w @ [Call_Server_GetByID (serverId (driver w)),
                                    Call_Server_Reboot server])
       \<and> (lookup_err = None \<and> call_Server_Poweroff a server w1 = (Returns (action, Some e), w2) \<longrightarrow>
            Kill a w = (Returns (Some e), w2)
          \<and> calls w2 = calls w @ [Call_Server_GetByID (serverId (driver w)),
                                    Call_Server_Poweroff server])
       \<and> (lookup_err = None \<and> call_Server_Poweron a server w1 = (Returns (Some act, None), w2)
            \<and> call_Action_WatchProgress a act w2 = (Some r, w3) \<longrightarrow>
            Start a w = (Returns r, w3)
          \<and> calls w3 = calls w @ [Call_Server_GetByID (serverId (driver w)),
                                    Call_Server_Poweron server, Call_Action_WatchProgress act])
       \<and> (lookup_err = None \<and> call_Server_Shutdown a server w1 = (Returns (Some act, None), w2)
            \<and> call_Action_WatchProgress a act w2 = (Some r, w3) \<longrightarrow>
            Stop a w = (Returns r, w3)
          \<and> calls w3 = calls w @ [Call_Server_GetByID (serverId (driver w)),
                                    Call_Server_Shutdown server, Call_Action_WatchProgress act])
       \<and> (lookup_err = None \<and> call_Server_Reboot a server w1 = (Returns (Some act, None), w2)
            \<and> call_Action_WatchProgress a act w2 = (Some r, w3) \<longrightarrow>
            Restart a w = (Returns r, w3)
          \<and> calls w3 = calls w @ [Call_Server_GetByID (serverId (driver w)),
                                    Call_Server_Reboot server, Call_Action_WatchProgress act])
       \<and> (lookup_err = None \<and> call_Server_Poweroff a server w1 = (Returns (Some act, None), w2)
            \<and> call_Action_WatchProgress a act w2 = (Some r, w3) \<longrightarrow>
            Kill a w = (Returns r, w3)
          \<and> calls w3 = calls w @ [Call_Server_GetByID (serverId (driver w)),
                                    Call_Server_Poweroff server, Call_Action_WatchProgress act])"
proof -
  have w1: "w1 = logged (Call_Server_GetByID (serverId (driver w))) w"
    using assms(2) by (rule GetByID_world)
  have c1: "calls w1 = calls w @ [Call_Server_GetByID (serverId (driver w))]"
    by (simp add: w1)
  have lookup: "lookup_err = Some e \<longrightarrow>
            Start a w = (Returns (Some e), w1) \<and> Stop a w = (Returns (Some e), w1)
          \<and> Restart a w = (Returns (Some e), w1) \<and> Kill a w = (Returns (Some e), w1)
          \<and> calls w1 = calls w @ [Call_Server_GetByID (serverId (driver w))]"
    using assms c1
    by (simp add: Start_lookup_error Stop_lookup_error Restart_lookup_error Kill_lookup_error)
  have s1: "lookup_err = None \<and> call_Server_Poweron a server w1 = (Returns (action, Some e), w2) \<longrightarrow>
            Start a w = (Returns (Some e), w2)
          \<and> calls w2 = calls w @ [Call_Server_GetByID (serverId (driver w)),
                                    Call_Server_Poweron server]"
    using assms c1 by (auto simp: Start_submit_error) (auto simp: call_defs split: option.splits)
  have s2: "lookup_err = None \<and> call_Server_Shutdown a server w1 = (Returns (action, Some e), w2) \<longrightarrow>
            Stop a w = (Returns (Some e), w2)
          \<and> calls w2 = calls w @ [Call_Server_GetByID (serverId (driver w)),
                                    Call_Server_Shutdown server]"
    using assms c1 by (auto simp: Stop_submit_error) (auto simp: call_defs split: option.splits)
  have s3: "lookup_err = None \<and> call_Server_Reboot a server w1 = (Returns (action, Some e), w2) \<longrightarrow>
            Restart a w = (Returns (Some e), w2)
          \<and> calls w2 = calls w @ [Call_Server_GetByID (serverId (driver w)),
                                    Call_Server_Reboot server]"
    using assms c1 by (auto simp: Restart_submit_error) (auto simp: call_defs split: option.splits)
  have s4: "lookup_err = None \<and> call_Server_Poweroff a server w1 = (Returns (action, Some e), w2) \<longrightarrow>
            Kill a w = (Returns (Some e), w2)
          \<and> calls w2 = calls w @ [Call_Server_GetByID (serverId (driver w)),
                                    Call_Server_Poweroff server]"
    using assms c1 by (auto simp: Kill_submit_error) (auto simp: call_defs split: option.splits)
  have t1: "lookup_err = None \<and> call_Server_Poweron a server w1 = (Returns (Some act, None), w2)
            \<and> call_Action_WatchProgress a act w2 = (Some r, w3) \<longrightarrow>
            Start a w = (Returns r, w3)
          \<and> calls w3 = calls w @ [Call_Server_GetByID (serverId (driver w)),
                                    Call_Server_Poweron server, Call_Action_WatchProgress act]"
    using assms c1 by (auto simp: Start_waits) (auto simp: call_defs split: option.splits)
  have t2: "lookup_err = None \<and> call_Server_Shutdown a server w1 = (Returns (Some act, None), w2)
            \<and> call_Action_WatchProgress a act w2 = (Some r, w3) \<longrightarrow>
            Stop a w = (Returns r, w3)
          \<and> calls w3 = calls w @ [Call_Server_GetByID (serverId (driver w)),
                                    Call_Server_Shutdown server, Call_Action_WatchProgress act]"
    using assms c1 by (auto simp: Stop_waits) (auto simp: call_defs split: option.splits)
  have t3: "lookup_err = None \<and> call_Server_Reboot a server w1 = (Returns (Some act, None), w2)
            \<and> call_Action_WatchProgress a act w2 = (Some r, w3) \<longrightarrow>
            Restart a w = (Returns r, w3)
          \<and> calls w3 = calls w @ [Call_Server_GetByID (serverId (driver w)),
                                    Call_Server_Reboot server, Call_Action_WatchProgress act]"
    using assms c1 by (auto simp: Restart_waits) (auto simp: call_defs split: option.splits)
  have t4: "lookup_err = None \<and> call_Server_Poweroff a server w1 = (Returns (Some act, None), w2)
            \<and> call_Action_WatchProgress a act w2 = (Some r, w3) \<longrightarrow>
            Kill a w = (Returns r, w3)
          \<and> calls w3 = calls w @ [Call_Server_GetByID (serverId (driver w)),
                                    Call_Server_Poweroff server, Call_Action_WatchProgress act]"
    using assms c1 by (auto simp: Kill_waits) (auto simp: call_defs split: option.splits)
  from lookup s1 s2 s3 s4 t1 t2 t3 t4 show ?thesis by blast
qed

theorem power_operations_protocol_witness:
  "hcloud (driver demo_created) = Some (NewClient ''T'' ''docker-machine'' ''dev'')
   \<and> call_Server_GetByID demo_api_lookup_fails (serverId (driver demo_created)) demo_created =
       ((None, Some connection_refused), logged (Call_Server_GetByID 42) demo_created)
   \<and> Start demo_api_lookup_fails demo_created =
       (Returns (Some connection_refused), logged (Call_Server_GetByID 42) demo_created)
   \<and> Kill demo_api_lookup_fails demo_created =
       (Returns (Some connection_refused), logged (Call_Server_GetByID 42) demo_created)
   \<and> call_Server_GetByID demo_api_submit_fails (serverId (driver demo_created)) demo_created =
       ((Some demo_server, None), logged (Call_Server_GetByID 42) demo_created)
   \<and> call_Server_Shutdown demo_api_submit_fails (Some demo_server)
         (logged (Call_Server_GetByID 42) demo_created) =
       (Returns (None, Some locked),
        logged (Call_Server_Shutdown (Some demo_server))
          (logged (Call_Server_GetByID 42) demo_created))
   \<and> Stop demo_api_submit_fails demo_created =
       (Returns (Some locked),
        logged (Call_Server_Shutdown (Some demo_server))
          (logged (Call_Server_GetByID 42) demo_created))
   \<and> call_Server_GetByID demo_api_wait_fails (serverId (driver demo_created)) demo_created =
       ((Some demo_server, None), logged (Call_Server_GetByID 42) demo_created)
   \<and> call_Server_Reboot demo_api_wait_fails (Some demo_server)
         (logged (Call_Server_GetByID 42) demo_created) =
       (Returns (Some demo_action, None),
        logged (Call_Server_Reboot (Some demo_server))
          (logged (Call_Server_GetByID 42) demo_created))
   \<and> call_Action_WatchProgress demo_api_wait_fails demo_action
         (logged (Call_Server_Reboot (Some demo_server))
           (logged (Call_Server_GetByID 42) demo_created)) =
       (Some (Some action_failed),
        logged (Call_Action_WatchProgress demo_action)
          (logged (Call_Server_Reboot (Some demo_server))
            (logged (Call_Server_GetByID 42) demo_created)))
   \<and> Restart demo_api_wait_fails demo_created =
       (Returns (Some action_failed),
        logged (Call_Action_WatchProgress demo_action)
          (logged (Call_Server_Reboot (Some demo_server))
            (logged (Call_Server_GetByID 42) demo_created)))"
proof -
  let ?w1 = "logged (Call_Server_GetByID 42) demo_created"
  have l1: "call_Server_GetByID demo_api_lookup_fails (serverId (driver demo_created)) demo_created =
       ((None, Some connection_refused), ?w1)"
    by (simp add: demo_defs call_defs)
  have l2: "call_Server_GetByID demo_api_submit_fails (serverId (driver demo_created)) demo_created =
       ((Some demo_server, None), ?w1)"
    by (simp add: demo_defs call_defs)
  have s2: "call_Server_Shutdown demo_api_submit_fails (Some demo_server) ?w1 =
       (Returns (None, Some locked), logged (Call_Server_Shutdown (Some demo_server)) ?w1)"
    by (simp add: demo_defs call_defs)
  have l3: "call_Server_GetByID demo_api_wait_fails (serverId (driver demo_created)) demo_created =
       ((Some demo_server, None), ?w1)"
    by (simp add: demo_defs call_defs)
  have s3: "call_Server_Reboot demo_api_wait_fails (Some demo_server) ?w1 =
       (Returns (Some demo_action, None), logged (Call_Server_Reboot (Some demo_server)) ?w1)"
    by (simp add: demo_defs call_defs)
  have t3: "call_Action_WatchProgress demo_api_wait_fails demo_action
         (logged (Call_Server_Reboot (Some demo_server)) ?w1) =
       (Some (Some action_failed),
        logged (Call_Action_WatchProgress demo_action)
          (logged (Call_Server_Reboot (Some demo_server)) ?w1))"
    by (simp add: demo_defs call_defs)
  have r1: "Start demo_api_lookup_fails demo_created = (Returns (Some connection_refused), ?w1)"
    using power_operations_protocol [OF demo_created_client l1, where e = connection_refused] by simp
  have r1': "Kill demo_api_lookup_fails demo_created = (Returns (Some connection_refused), ?w1)"
    using power_operations_protocol [OF demo_created_client l1, where e = connection_refused] by simp
  have r2: "Stop demo_api_submit_fails demo_created =
       (Returns (Some locked), logged (Call_Server_Shutdown (Some demo_server)) ?w1)"
    using power_operations_protocol [OF demo_created_client l2, where e = locked and action = None
      and ?w2.0 = "logged (Call_Server_Shutdown (Some demo_server)) ?w1"] s2
    by simp
  have r3: "Restart demo_api_wait_fails demo_created =
       (Returns (Some action_failed),
        logged (Call_Action_WatchProgress demo_action)
          (logged (Call_Server_Reboot (Some demo_server)) ?w1))"
    using power_operations_protocol [OF demo_created_client l3, where act = demo_action
      and r = "Some action_failed"
      and ?w2.0 = "logged (Call_Server_Reboot (Some demo_server)) ?w1"
      and ?w3.0 = "logged (Call_Action_WatchProgress demo_action)
          (logged (Call_Server_Reboot (Some demo_server)) ?w1)"] s3 t3
    by simp
  show ?thesis
    by (intro conjI; rule demo_created_client l1 r1 r1' l2 s2 r2 l3 s3 t3 r3)
qed

subsection \<open>The address queries\<close>

text \<open>
  Claim C9 says that \<^verbatim>\<open>GetURL\<close> and \<^verbatim>\<open>GetSSHHostname\<close> both fail when the state is not
  Running. \<^verbatim>\<open>GetSSHHostname\<close> is \<^verbatim>\<open>GetIP\<close> alone: with a server that is off, so that the
  state is Stopped, it returns the cached address and no error.
\<close>

theorem address_queries_counterexample:
  "GetState demo_api_off demo_created =
     (Returns (Stopped, None), logged (Call_Server_GetByID 42) demo_created)
   \<and> GetSSHHostname demo_api_off demo_created = (Returns (''203.0.113.9'', None), demo_created)"
  by (simp add: GetState_def GetSSHHostname_def GetIP_def call_defs demo_defs status_defs)

text \<open>
  Claim C9, amended. \<^verbatim>\<open>GetURL\<close> fails with an error when the state query fails or gives
  a state other than Running, before an address is built, and when the state is Running
  it returns the URL built from the cached \<^verbatim>\<open>IPAddress\<close> and the port 2376.
  \<^verbatim>\<open>GetSSHHostname\<close> applies no guard and makes no provider call: whatever the provider
  and the calls made so far, it returns the cached \<^verbatim>\<open>IPAddress\<close>.
\<close>

theorem address_queries:
  assumes "GetState a w = (Returns (s, err), w1)"
  shows "(s \<noteq> Running \<or> err \<noteq> None \<longrightarrow> (\<exists>e. GetURL a w = (Returns ([], Some e), w1)))
       \<and> (s = Running \<and> err = None \<longrightarrow>
            GetURL a w =
              (Returns (''tcp://'' @ JoinHostPort (IPAddress (BaseDriver (driver w))) ''2376'',
                        None), w1))
       \<and> GetSSHHostname a w = (Returns (IPAddress (BaseDriver (driver w)), None), w)
       \<and> GetSSHHostname a' (w\<lparr>calls := cs\<rparr>) =
           (Returns (IPAddress (BaseDriver (driver w)), None), w\<lparr>calls := cs\<rparr>)"
proof -
  have d: "driver w1 = driver w"
    using GetState_driver [of a w] assms by simp
  have 1: "s \<noteq> Running \<or> err \<noteq> None \<longrightarrow> (\<exists>e. GetURL a w = (Returns ([], Some e), w1))"
    using assms by (cases err) (auto simp: GetURL_def MustBeRunning_def)
  have 2: "s = Running \<and> err = None \<longrightarrow>
            GetURL a w =
              (Returns (''tcp://'' @ JoinHostPort (IPAddress (BaseDriver (driver w))) ''2376'',
                        None), w1)"
    using assms d by (simp add: GetURL_def MustBeRunning_def GetIP_def)
  have 3: "GetSSHHostname a w = (Returns (IPAddress (BaseDriver (driver w)), None), w)"
    "GetSSHHostname a' (w\<lparr>calls := cs\<rparr>) =
           (Returns (IPAddress (BaseDriver (driver w)), None), w\<lparr>calls := cs\<rparr>)"
    by (simp_all add: GetSSHHostname_def GetIP_def)
  from 1 2 3 show ?thesis by (intro conjI)
qed

theorem address_queries_witness:
  "GetState demo_api_off demo_created =
     (Returns (Stopped, None), logged (Call_Server_GetByID 42) demo_created)
   \<and> GetURL demo_api_off demo_created =
       (Returns ([], Some ErrHostIsNotRunning), logged (Call_Server_GetByID 42) demo_created)
   \<and> GetState demo_api demo_created =
       (Returns (Running, None), logged (Call_Server_GetByID 42) demo_created)
   \<and> GetURL demo_api demo_created =
       (Returns (''tcp://203.0.113.9:2376'', None), logged (Call_Server_GetByID 42) demo_created)
   \<and> GetSSHHostname demo_api demo_created = (Returns (''203.0.113.9'', None), demo_created)"
proof -
  let ?w1 = "logged (Call_Server_GetByID 42) demo_created"
  have g1: "GetState demo_api_off demo_created = (Returns (Stopped, None), ?w1)"
    by (simp add: GetState_def call_defs demo_defs status_defs)
  have g2: "GetState demo_api demo_created = (Returns (Running, None), ?w1)"
    by (simp add: GetState_def call_defs demo_defs status_defs)
  have ip: "IPAddress (BaseDriver (driver demo_created)) = ''203.0.113.9''"
    by (simp add: demo_defs)
  have j: "''tcp://'' @ JoinHostPort ''203.0.113.9'' ''2376'' = ''tcp://203.0.113.9:2376''"
    by (simp add: JoinHostPort_def)
  have "\<exists>e. GetURL demo_api_off demo_created = (Returns ([], Some e), ?w1)"
    using address_queries [OF g1] by simp
  then have r1: "GetURL demo_api_off demo_created = (Returns ([], Some ErrHostIsNotRunning), ?w1)"
    using g1 by (auto simp: GetURL_def MustBeRunning_def)
  have r2: "GetURL demo_api demo_created = (Returns (''tcp://203.0.113.9:2376'', None), ?w1)"
    using address_queries [OF g2] ip j by simp
  have r3: "GetSSHHostname demo_api demo_created = (Returns (''203.0.113.9'', None), demo_created)"
    using address_queries [OF g2] ip by simp
  show ?thesis
    by (intro conjI; rule g1 r1 g2 r2 r3)
qed

subsection \<open>The frame of the operations\<close>

text \<open>
  Claim C10. \<^verbatim>\<open>Start\<close>, \<^verbatim>\<open>Stop\<close>, \<^verbatim>\<open>Restart\<close>, \<^verbatim>\<open>Kill\<close>, \<^verbatim>\<open>Remove\<close>, \<^verbatim>\<open>GetState\<close> and the address
  queries leave the driver as it was, and so its \<^verbatim>\<open>serverId\<close> and \<^verbatim>\<open>IPAddress\<close>, whatever
  their outcome; \<^verbatim>\<open>SetConfigFromFlags\<close> leaves the two fields as they were. \<^verbatim>\<open>Create\<close> either
  returns nil having set both fields from one server descriptor, or does not return
  nil and leaves the driver as it was.
\<close>

theorem identity_frame:
  "driver (snd (Start a w)) = driver w
   \<and> driver (snd (Stop a w)) = driver w
   \<and> driver (snd (Restart a w)) = driver w
   \<and> driver (snd (Kill a w)) = driver w
   \<and> driver (snd (Remove a w)) = driver w
   \<and> driver (snd (GetState a w)) = driver w
   \<and> driver (snd (GetURL a w)) = driver w
   \<and> driver (snd (GetSSHHostname a w)) = driver w
   \<and> serverId (driver (snd (SetConfigFromFlags version flags w))) = serverId (driver w)
   \<and> IPAddress (BaseDriver (driver (snd (SetConfigFromFlags version flags w)))) =
       IPAddress (BaseDriver (driver w))
   \<and> ((\<exists>server :: hc_Server. fst (Create a w) = Returns None
          \<and> driver (snd (Create a w)) =
              (driver w)\<lparr>serverId := ID server,
                          BaseDriver := (BaseDriver (driver w))
                            \<lparr>IPAddress := IP_String (IP (IPv4 (PublicNet server)))\<rparr>\<rparr>)
      \<or> ((fst (Create a w) = Panics \<or> fst (Create a w) = Blocks
           \<or> (\<exists>e. fst (Create a w) = Returns (Some e)))
          \<and> driver (snd (Create a w)) = driver w))"
proof -
  have c: "serverId (driver (snd (SetConfigFromFlags version flags w))) = serverId (driver w)"
    "IPAddress (BaseDriver (driver (snd (SetConfigFromFlags version flags w)))) =
       IPAddress (BaseDriver (driver w))"
    by (simp_all add: SetConfigFromFlags_def Let_def)
  show ?thesis
    by (intro conjI; rule Start_driver Stop_driver Restart_driver Kill_driver Remove_driver
        GetState_driver GetURL_driver GetSSHHostname_driver c Create_frame)
qed

end
